theory Spec2Isabelle
  imports Complex_Main "HOL-Library.Multiset"
begin

section \<open>The training script \<^verbatim>\<open>apps/train_net.py\<close>\<close>

text \<open>
  The script is an orchestration loop around a tensor framework. The embedding keeps the
  control flow, the integer arithmetic of the loop counters, the exceptions and the order
  of the calls on external components; it abstracts
  \<^item> floating-point numbers to \<^typ>\<open>real\<close> (comparisons with \<open>0.5\<close> are exact in
    both, rounding and NaN are left out);
  \<^item> a tensor to its shape and the list of its elements in row-major order (device,
    element type and strides are left out);
  \<^item> wall-clock timing (\<^verbatim>\<open>time.time()\<close>, the ETA printed in the log line).
  Python integers are \<^typ>\<open>int\<close>. An uncaught exception is a value of \<open>py_error\<close>.
\<close>

datatype py_error =
    ValueError          \<comment> \<open>\<^verbatim>\<open>list.index\<close> of an absent element; a loader that cannot be built\<close>
  | ZeroDivisionError   \<comment> \<open>\<^verbatim>\<open>%\<close> or \<^verbatim>\<open>/\<close> by zero\<close>
  | StopIteration       \<comment> \<open>\<^verbatim>\<open>next\<close> on an exhausted loader\<close>
  | RuntimeError        \<comment> \<open>tensor shapes that do not broadcast, stack or view\<close>
  | SystemExit          \<comment> \<open>\<^verbatim>\<open>argparse\<close> rejecting the command line\<close>
  | OtherError          \<comment> \<open>any other exception of an external component\<close>

subsection \<open>Command line and configuration (lines 22 to 36)\<close>

text \<open>\<^verbatim>\<open>xs.index(x)\<close>: the position of the first occurrence, \<^verbatim>\<open>ValueError\<close> if there is none.\<close>

fun index_of :: "'a \<Rightarrow> 'a list \<Rightarrow> py_error + nat" where
  "index_of x [] = Inl ValueError"
| "index_of x (y # ys) =
     (if y = x then Inr 0
      else (case index_of x ys of Inl e \<Rightarrow> Inl e | Inr k \<Rightarrow> Inr (Suc k)))"

text \<open>\<^verbatim>\<open>xs[lo:hi]\<close> for indices that are not negative.\<close>

definition py_slice :: "nat \<Rightarrow> nat \<Rightarrow> 'a list \<Rightarrow> 'a list" where
  "py_slice lo hi xs = drop lo (take hi xs)"

text \<open>
  Lines 25 to 36. \<open>parse_args\<close> stands for \<^verbatim>\<open>parser.parse_args\<close> of the standard library
  (its result is the value of \<^verbatim>\<open>args.config_file\<close>), \<open>load_cfg\<close> for
  \<^verbatim>\<open>get_cfg_defaults()\<close>, \<^verbatim>\<open>cfg.merge_from_file\<close> and \<^verbatim>\<open>cfg.freeze()\<close>, which read the file
  system; both are parameters. The list \<^verbatim>\<open>opts\<close> of overrides is commented out in the
  source, so nothing reads the arguments after the separator.
\<close>

definition startup_config ::
  "(string list \<Rightarrow> py_error + 'a) \<Rightarrow> ('a \<Rightarrow> py_error + 'c) \<Rightarrow> string list \<Rightarrow> py_error + ('a \<times> 'c)"
where
  "startup_config parse_args load_cfg sys_argv =
     (case index_of ''--'' sys_argv of
        Inl e \<Rightarrow> Inl e
      | Inr k \<Rightarrow>
          (case parse_args (py_slice 1 k sys_argv) of
             Inl e \<Rightarrow> Inl e
           | Inr config_file \<Rightarrow>
               (case load_cfg config_file of
                  Inl e \<Rightarrow> Inl e
                | Inr cfg \<Rightarrow> Inr (config_file, cfg))))"

subsection \<open>Tensors\<close>

text \<open>
  A tensor: its shape and its elements in row-major order. Every tensor of the framework
  holds as many elements as the product of its shape.
\<close>

record tensor =
  shape :: "nat list"
  elems :: "real list"

text \<open>
  \<^verbatim>\<open>t.masked_fill(mask, v)\<close>, for a mask of the shape of \<open>t\<close>: a new tensor with \<open>v\<close> where
  the mask holds.
\<close>

definition masked_fill :: "tensor \<Rightarrow> bool list \<Rightarrow> real \<Rightarrow> tensor" where
  "masked_fill t msk v = t\<lparr>elems := map (\<lambda>(x, m). if m then v else x) (zip (elems t) msk)\<rparr>"

text \<open>
  Lines 64 to 65 and 136 to 137, the same two statements in \<^verbatim>\<open>test\<close> and in \<^verbatim>\<open>train\<close>:
  \<^verbatim>\<open>pred = pred.masked_fill(pred<0.5, 0.); pred = pred.masked_fill(pred>=0.5, 1.)\<close>.
  The second mask is computed on the result of the first statement.
\<close>

definition binarize :: "tensor \<Rightarrow> tensor" where
  "binarize pred =
     (let pred1 = masked_fill pred (map (\<lambda>x. x < 1/2) (elems pred)) 0
      in masked_fill pred1 (map (\<lambda>x. x \<ge> 1/2) (elems pred1)) 1)"

text \<open>
  Broadcasting. The two shapes are aligned at their last dimension; two sizes agree when
  they are equal or one of them is \<open>1\<close>, and a missing dimension counts as \<open>1\<close>. The
  function works on the reversed shapes.
\<close>

fun broadcast_rev :: "nat list \<Rightarrow> nat list \<Rightarrow> py_error + nat list" where
  "broadcast_rev [] bs = Inr bs"
| "broadcast_rev (a # as) [] = Inr (a # as)"
| "broadcast_rev (a # as) (b # bs) =
     (if a = b \<or> b = 1 then
        (case broadcast_rev as bs of Inl e \<Rightarrow> Inl e | Inr r \<Rightarrow> Inr (a # r))
      else if a = 1 then
        (case broadcast_rev as bs of Inl e \<Rightarrow> Inl e | Inr r \<Rightarrow> Inr (b # r))
      else Inl RuntimeError)"

definition broadcast_shapes :: "nat list \<Rightarrow> nat list \<Rightarrow> py_error + nat list" where
  "broadcast_shapes s t =
     (case broadcast_rev (rev s) (rev t) of Inl e \<Rightarrow> Inl e | Inr r \<Rightarrow> Inr (rev r))"

text \<open>The first \<open>m\<close> consecutive pieces of \<open>n\<close> elements of a list.\<close>

definition chop :: "nat \<Rightarrow> nat \<Rightarrow> 'a list \<Rightarrow> 'a list list" where
  "chop n m xs = map (\<lambda>k. take n (drop (k * n) xs)) [0..<m]"

text \<open>
  The elements of a tensor of shape \<open>s # ss\<close> expanded to the shape \<open>r # rs\<close> of the same
  number of dimensions: along a dimension of equal size every slice is expanded, along a
  dimension of size \<open>1\<close> the one slice is repeated \<open>r\<close> times.
\<close>

fun expand_dims :: "nat list \<Rightarrow> nat list \<Rightarrow> real list \<Rightarrow> real list" where
  "expand_dims (r # rs) (s # ss) xs =
     (if s = r then concat (map (expand_dims rs ss) (chop (prod_list ss) s xs))
      else concat (replicate r (expand_dims rs ss xs)))"
| "expand_dims rs ss xs = xs"

text \<open>\<^verbatim>\<open>t.expand(sh)\<close>, for a shape \<open>sh\<close> the shape of \<open>t\<close> broadcasts to.\<close>

definition expand :: "nat list \<Rightarrow> tensor \<Rightarrow> real list" where
  "expand sh t =
     expand_dims sh (replicate (length sh - length (shape t)) 1 @ shape t) (elems t)"

text \<open>
  \<^verbatim>\<open>F.mse_loss(input, target)\<close> with the default reduction: both tensors are broadcast to
  their common shape, \<^verbatim>\<open>RuntimeError\<close> if there is none; the loss is the mean of the squared
  differences. The mean of an empty tensor, NaN in the framework, is \<open>0\<close> here.
\<close>

definition mse_loss :: "tensor \<Rightarrow> tensor \<Rightarrow> py_error + real" where
  "mse_loss input target =
     (case broadcast_shapes (shape input) (shape target) of
        Inl e \<Rightarrow> Inl e
      | Inr sh \<Rightarrow>
          Inr (sum_list (map (\<lambda>(x, y). (x - y) ^ 2) (zip (expand sh input) (expand sh target)))
                 / real (prod_list sh)))"

text \<open>
  Line 139 of \<^verbatim>\<open>train\<close>, \<^verbatim>\<open>output.eq(target).float().mean()\<close>: the comparison broadcasts as
  well; the result is the fraction of the positions of the common shape where the two
  agree.
\<close>

definition eq_mean_broadcast :: "tensor \<Rightarrow> tensor \<Rightarrow> py_error + real" where
  "eq_mean_broadcast pred target =
     (case broadcast_shapes (shape pred) (shape target) of
        Inl e \<Rightarrow> Inl e
      | Inr sh \<Rightarrow>
          Inr (sum_list (map (\<lambda>(x, y). if x = y then 1 else 0)
                          (zip (expand sh pred) (expand sh target)))
                 / real (prod_list sh)))"

text \<open>
  Line 67 of \<^verbatim>\<open>test\<close>, \<^verbatim>\<open>pred.eq(target.data.view_as(pred)).float().mean()\<close>: \<^verbatim>\<open>view_as\<close>
  gives the target the shape of the prediction and raises \<^verbatim>\<open>RuntimeError\<close> when the
  numbers of elements differ; the result is the fraction of positions where the two agree.
\<close>

definition eq_mean :: "tensor \<Rightarrow> tensor \<Rightarrow> py_error + real" where
  "eq_mean pred target =
     (if length (elems pred) \<noteq> length (elems target) then Inl RuntimeError
      else Inr (sum_list (map (\<lambda>(x, y). if x = y then 1 else 0) (zip (elems pred) (elems target)))
                  / real (length (elems pred))))"

subsection \<open>Data sets, batches and loaders\<close>

record sample =
  BX :: tensor
  BT :: tensor
  tgt :: tensor

text \<open>
  \<^verbatim>\<open>torch.stack(ts)\<close>, which the loader's collate function applies to the tensors of the
  samples of a batch: a new first dimension, for tensors of one shape.
\<close>

definition stack :: "tensor list \<Rightarrow> tensor" where
  "stack ts =
     \<lparr>shape = length ts # (case ts of [] \<Rightarrow> [] | t # us \<Rightarrow> shape t),
      elems = concat (map elems ts)\<rparr>"

definition stackable :: "tensor list \<Rightarrow> bool" where
  "stackable ts = (case ts of [] \<Rightarrow> True | t # us \<Rightarrow> list_all (\<lambda>u. shape u = shape t) us)"

text \<open>A batch is the list of the samples collated into it; its tensors stack theirs.\<close>

type_synonym batch = "sample list"

definition data_BX :: "batch \<Rightarrow> tensor" where
  "data_BX b = stack (map BX b)"

definition data_BT :: "batch \<Rightarrow> tensor" where
  "data_BT b = stack (map BT b)"

definition targets :: "batch \<Rightarrow> tensor" where
  "targets b = stack (map tgt b)"

text \<open>
  Taking a batch from a loader raises \<^verbatim>\<open>RuntimeError\<close> when the tensors of its samples
  do not stack. (A loader yields no empty batch.)
\<close>

definition collates :: "batch \<Rightarrow> bool" where
  "collates b = (stackable (map BX b) \<and> stackable (map BT b) \<and> stackable (map tgt b))"

text \<open>
  The framework's batch sampler: it fills a batch from the sampler's order, yields it when
  it holds \<open>n\<close> elements, and at the end yields the incomplete batch unless \<open>drop_last\<close>.
\<close>

fun batch_sampler :: "nat \<Rightarrow> bool \<Rightarrow> 'a list \<Rightarrow> 'a list \<Rightarrow> 'a list list" where
  "batch_sampler n drop_last acc [] = (if acc \<noteq> [] \<and> \<not> drop_last then [acc] else [])"
| "batch_sampler n drop_last acc (x # xs) =
     (if length (acc @ [x]) = n then (acc @ [x]) # batch_sampler n drop_last [] xs
      else batch_sampler n drop_last (acc @ [x]) xs)"

text \<open>
  \<^verbatim>\<open>DataLoader(dataset, batch_size, shuffle, drop_last)\<close>. The constructor raises
  \<^verbatim>\<open>ValueError\<close> for an empty data set when it shuffles (its random sampler needs a
  positive number of samples) and for a batch size that is not positive. The result is
  the list of batches one pass over the loader yields; \<open>perm\<close> is the order the random
  sampler draws for that pass, and is not read without shuffling.
\<close>

definition data_loader ::
  "'a list \<Rightarrow> int \<Rightarrow> bool \<Rightarrow> bool \<Rightarrow> ('a list \<Rightarrow> 'a list) \<Rightarrow> py_error + 'a list list" where
  "data_loader dataset batch_size shuffle drop_last perm =
     (if shuffle \<and> dataset = [] then Inl ValueError
      else if batch_size \<le> 0 then Inl ValueError
      else Inr (batch_sampler (nat batch_size) drop_last []
                  (if shuffle then perm dataset else dataset)))"

text \<open>\<^verbatim>\<open>len(loader)\<close>, computed by the framework from the size \<open>n\<close> of the data set.\<close>

definition loader_len :: "int \<Rightarrow> bool \<Rightarrow> nat \<Rightarrow> int" where
  "loader_len batch_size drop_last n =
     (if drop_last then int n div batch_size else (int n + batch_size - 1) div batch_size)"

subsection \<open>Configuration, external components, trainer\<close>

record config =
  batch_size :: int
  num_threads :: int
  num_epoch :: int
  freq_plot :: int
  freq_show :: int
  freq_save :: int
  freq_eval :: int
  ckpt_path :: string
  name :: string
  overfit :: bool

text \<open>
  The components the script imports, as parameters. \<open>'w\<close> is the type of the network's
  parameters. \<open>forward w training bx bt\<close> is the network's output for parameters \<open>w\<close> in
  training or evaluation mode. \<open>optimizer_step w loss\<close> stands for lines 141 to 143
  (\<^verbatim>\<open>zero_grad\<close>, \<^verbatim>\<open>loss.backward()\<close>, \<^verbatim>\<open>optimizer.step()\<close>): the new parameters, from the
  current ones and the loss as a function of the parameters (what the autograd graph of
  \<^verbatim>\<open>loss\<close> records). \<open>shuffle epoch xs\<close> is the order the random sampler draws for the
  loader of that epoch. The two data sets are what \<^verbatim>\<open>AMASSdataset(cfg, split)\<close> builds.
\<close>

record 'w ext =
  forward :: "'w \<Rightarrow> bool \<Rightarrow> tensor \<Rightarrow> tensor \<Rightarrow> tensor"
  optimizer_step :: "'w \<Rightarrow> ('w \<Rightarrow> py_error + real) \<Rightarrow> 'w"
  shuffle :: "int \<Rightarrow> sample list \<Rightarrow> sample list"
  train_dataset :: "sample list"
  test_dataset :: "sample list"
  init_weights :: 'w

text \<open>The calls on external components, in the order the script makes them.\<close>

datatype event =
    Ckpt_loaded string                    \<comment> \<open>line 91\<close>
  | Ckpt_not_found string                 \<comment> \<open>line 93\<close>
  | Info_sizes int int                    \<comment> \<open>line 95: sizes of the data set and of the loader\<close>
  | Add_graph                             \<comment> \<open>line 102\<close>
  | Net_train                             \<comment> \<open>\<^verbatim>\<open>.train()\<close> on the network\<close>
  | Net_eval                              \<comment> \<open>\<^verbatim>\<open>.eval()\<close> on the network\<close>
  | Forward bool batch                    \<comment> \<open>a forward pass; the flag: gradients are tracked\<close>
  | Optimizer_step int int                \<comment> \<open>lines 141 to 143, at this epoch and iteration\<close>
  | Log_scalars int int int real real     \<comment> \<open>lines 150 to 159: epoch, iteration, global step, loss, accuracy\<close>
  | Add_image int                         \<comment> \<open>lines 163 to 165: global step\<close>
  | Update_ckpt int int                   \<comment> \<open>line 169: epoch, iteration\<close>
  | Test_log real real                    \<comment> \<open>line 70: loss and accuracy in percent\<close>
  | Scheduler_step                        \<comment> \<open>line 181\<close>

record 'w net =
  weights :: 'w
  training :: bool

record 'w trainer =
  net :: "'w net"
  iteration :: int
  epoch :: int
  trace :: "event list"

record 'w checkpoint =
  ck_weights :: 'w
  ck_epoch :: int
  ck_iteration :: int

text \<open>
  A statement leaves the state it reached and, when it raised, the exception. A sequence
  of statements stops at the first exception.
\<close>

type_synonym 's outcome = "'s \<times> py_error option"

definition and_then :: "'s outcome \<Rightarrow> ('s \<Rightarrow> 's outcome) \<Rightarrow> 's outcome" where
  "and_then r f = (case r of (s, None) \<Rightarrow> f s | (s, Some e) \<Rightarrow> (s, Some e))"

definition emit :: "event \<Rightarrow> 'w trainer \<Rightarrow> 'w trainer" where
  "emit ev tr = tr\<lparr>trace := trace tr @ [ev]\<rparr>"

text \<open>\<^verbatim>\<open>trainer.net.train()\<close> and \<^verbatim>\<open>trainer.net.eval()\<close>.\<close>

definition net_train :: "'w trainer \<Rightarrow> 'w trainer" where
  "net_train tr = emit Net_train (tr\<lparr>net := (net tr)\<lparr>training := True\<rparr>\<rparr>)"

definition net_eval :: "'w trainer \<Rightarrow> 'w trainer" where
  "net_eval tr = emit Net_eval (tr\<lparr>net := (net tr)\<lparr>training := False\<rparr>\<rparr>)"

text \<open>
  Modelled from the spec: the constructor of \<^verbatim>\<open>Trainer\<close> (\<^verbatim>\<open>lib/common/trainer.py\<close> is
  not among the sources). The training cursor is initialised to zero; a new network is in
  training mode.
\<close>

definition new_trainer :: "'w ext \<Rightarrow> 'w trainer" where
  "new_trainer ext =
     \<lparr>net = \<lparr>weights = init_weights ext, training = True\<rparr>, iteration = 0, epoch = 0, trace = []\<rparr>"

text \<open>
  Modelled from the spec: \<^verbatim>\<open>Trainer.load_ckpt\<close>. A checkpoint holds the network's
  parameters, the epoch index and the iteration index; loading resumes the cursor from it.
\<close>

definition load_ckpt :: "string \<Rightarrow> 'w checkpoint \<Rightarrow> 'w trainer \<Rightarrow> 'w trainer" where
  "load_ckpt path ck tr =
     emit (Ckpt_loaded path)
       (tr\<lparr>net := (net tr)\<lparr>weights := ck_weights ck\<rparr>,
           epoch := ck_epoch ck, iteration := ck_iteration ck\<rparr>)"

subsection \<open>Held-out evaluation: \<^verbatim>\<open>test\<close> (lines 40 to 71)\<close>

text \<open>
  The loop of lines 54 to 67, inside \<^verbatim>\<open>torch.no_grad()\<close>. The accumulators are
  \<^verbatim>\<open>test_loss\<close> and \<^verbatim>\<open>correct\<close>; \<open>tr\<close> is the trace. Taking the batch from the loader can
  raise; line 61 adds to \<^verbatim>\<open>test_loss\<close> before line 67 can raise.
\<close>

fun test_loop ::
  "'w ext \<Rightarrow> 'w net \<Rightarrow> batch list \<Rightarrow> real \<times> real \<times> event list
     \<Rightarrow> (real \<times> real \<times> event list) outcome"
where
  "test_loop ext nt [] acc = (acc, None)"
| "test_loop ext nt (b # bs) (test_loss, correct, tr) =
     (if \<not> collates b then ((test_loss, correct, tr), Some RuntimeError)
      else
        (let output = forward ext (weights nt) (training nt) (data_BX b) (data_BT b);
             tr1 = tr @ [Forward False b]
         in case mse_loss output (targets b) of
              Inl e \<Rightarrow> ((test_loss, correct, tr1), Some e)
            | Inr l \<Rightarrow>
                (case eq_mean (binarize output) (targets b) of
                   Inl e \<Rightarrow> ((test_loss + l, correct, tr1), Some e)
                 | Inr c \<Rightarrow> test_loop ext nt bs (test_loss + l, correct + c, tr1))))"

text \<open>
  \<^verbatim>\<open>test(net, logger)\<close>. It puts the network in evaluation mode, builds the held-out
  loader (no shuffling, the last incomplete batch is kept), runs the loop, and divides
  both accumulators by \<^verbatim>\<open>len(test_loader.dataset)\<close>, the number of samples of the data
  set. With an empty data set \<^verbatim>\<open>test_loss\<close> is still the integer \<open>0\<close> and the division
  raises. The argument \<open>logger\<close> is the trace so far, which holds the logger's lines among
  the other calls.
\<close>

definition test :: "config \<Rightarrow> 'w ext \<Rightarrow> 'w net \<Rightarrow> event list \<Rightarrow> ('w net \<times> event list) outcome" where
  "test cfg ext nt logger =
     (let nt1 = nt\<lparr>training := False\<rparr>;
          tr1 = logger @ [Net_eval]
      in case data_loader (test_dataset ext) (batch_size cfg) False False (\<lambda>xs. xs) of
           Inl e \<Rightarrow> ((nt1, tr1), Some e)
         | Inr test_loader \<Rightarrow>
             (case test_loop ext nt1 test_loader (0, 0, tr1) of
                ((test_loss, correct, tr2), Some e) \<Rightarrow> ((nt1, tr2), Some e)
              | ((test_loss, correct, tr2), None) \<Rightarrow>
                  (if length (test_dataset ext) = 0 then ((nt1, tr2), Some ZeroDivisionError)
                   else ((nt1, tr2 @ [Test_log (test_loss / real (length (test_dataset ext)))
                                        (100 * correct / real (length (test_dataset ext)))]),
                         None))))"

subsection \<open>The training loop: \<^verbatim>\<open>train\<close> (lines 74 to 182)\<close>

text \<open>Python's \<^verbatim>\<open>a % b\<close> on integers: the sign of the divisor, as \<open>mod\<close> on \<^typ>\<open>int\<close>.\<close>

definition py_mod :: "int \<Rightarrow> int \<Rightarrow> py_error + int" where
  "py_mod a b = (if b = 0 then Inl ZeroDivisionError else Inr (a mod b))"

text \<open>\<^verbatim>\<open>iteration % freq == 0 and iteration > 0\<close>: the remainder is evaluated first.\<close>

definition due :: "int \<Rightarrow> int \<Rightarrow> py_error + bool" where
  "due i freq = (case py_mod i freq of Inl e \<Rightarrow> Inl e | Inr r \<Rightarrow> Inr (r = 0 \<and> i > 0))"

text \<open>Lines 149 to 159: the log line and the two scalars.\<close>

definition plot_step ::
  "config \<Rightarrow> int \<Rightarrow> int \<Rightarrow> int \<Rightarrow> real \<Rightarrow> real \<Rightarrow> 'w trainer \<Rightarrow> 'w trainer outcome" where
  "plot_step cfg ep niter i loss correct tr =
     (case due i (freq_plot cfg) of
        Inl e \<Rightarrow> (tr, Some e)
      | Inr d \<Rightarrow>
          (if d then (emit (Log_scalars ep i (ep * niter + i) loss correct) tr, None)
           else (tr, None)))"

text \<open>Lines 162 to 165: the diagnostic image (its rendering is not modelled).\<close>

definition show_step :: "config \<Rightarrow> int \<Rightarrow> int \<Rightarrow> int \<Rightarrow> 'w trainer \<Rightarrow> 'w trainer outcome" where
  "show_step cfg ep niter i tr =
     (case due i (freq_show cfg) of
        Inl e \<Rightarrow> (tr, Some e)
      | Inr d \<Rightarrow> (if d then (emit (Add_image (ep * niter + i)) tr, None) else (tr, None)))"

text \<open>
  Lines 168 to 170: the checkpoint. The flag \<^verbatim>\<open>overfit\<close> is read last. What
  \<^verbatim>\<open>update_ckpt\<close> keeps in the trainer is left out: \<^verbatim>\<open>train\<close> reads \<^verbatim>\<open>trainer.iteration\<close>
  and \<^verbatim>\<open>trainer.epoch\<close> only before the loop.
\<close>

definition save_step :: "config \<Rightarrow> int \<Rightarrow> int \<Rightarrow> 'w trainer \<Rightarrow> 'w trainer outcome" where
  "save_step cfg ep i tr =
     (case due i (freq_save cfg) of
        Inl e \<Rightarrow> (tr, Some e)
      | Inr d \<Rightarrow>
          (if d \<and> \<not> overfit cfg then (emit (Update_ckpt ep i) tr, None) else (tr, None)))"

text \<open>Lines 173 to 176: evaluation mode, the held-out pass, training mode again.\<close>

definition eval_step :: "config \<Rightarrow> 'w ext \<Rightarrow> int \<Rightarrow> 'w trainer \<Rightarrow> 'w trainer outcome" where
  "eval_step cfg ext i tr =
     (case due i (freq_eval cfg) of
        Inl e \<Rightarrow> (tr, Some e)
      | Inr d \<Rightarrow>
          (if d \<and> \<not> overfit cfg then
             (let tr1 = net_eval tr
              in case test cfg ext (net tr1) (trace tr1) of
                   ((nt, lg), Some e) \<Rightarrow> (tr1\<lparr>net := nt, trace := lg\<rparr>, Some e)
                 | ((nt, lg), None) \<Rightarrow> (net_train (tr1\<lparr>net := nt, trace := lg\<rparr>), None))
           else (tr, None)))"

text \<open>Lines 148 to 176, in the order of the source.\<close>

definition side_effects ::
  "config \<Rightarrow> 'w ext \<Rightarrow> int \<Rightarrow> int \<Rightarrow> int \<Rightarrow> real \<Rightarrow> real \<Rightarrow> 'w trainer \<Rightarrow> 'w trainer outcome" where
  "side_effects cfg ext ep niter i loss correct tr =
     and_then (and_then (and_then (plot_step cfg ep niter i loss correct tr)
       (show_step cfg ep niter i)) (save_step cfg ep i)) (eval_step cfg ext i)"

text \<open>
  Lines 124 to 176, one iteration on the batch \<open>b\<close>. The loss is computed on the output of
  the network; line 136 then rebinds \<^verbatim>\<open>output\<close> to the binarized tensor, which only
  \<^verbatim>\<open>correct\<close> reads.
\<close>

definition train_iteration ::
  "config \<Rightarrow> 'w ext \<Rightarrow> int \<Rightarrow> int \<Rightarrow> int \<Rightarrow> batch \<Rightarrow> 'w trainer \<Rightarrow> 'w trainer outcome" where
  "train_iteration cfg ext ep niter i b tr =
     (let output = forward ext (weights (net tr)) (training (net tr)) (data_BX b) (data_BT b);
          tr1 = emit (Forward True b) tr
      in case mse_loss output (targets b) of
           Inl e \<Rightarrow> (tr1, Some e)
         | Inr loss \<Rightarrow>
             (case eq_mean_broadcast (binarize output) (targets b) of
                Inl e \<Rightarrow> (tr1, Some e)
              | Inr correct \<Rightarrow>
                  (let w' = optimizer_step ext (weights (net tr1))
                              (\<lambda>w. mse_loss (forward ext w (training (net tr1)) (data_BX b) (data_BT b))
                                     (targets b));
                       tr2 = emit (Optimizer_step ep i) (tr1\<lparr>net := (net tr1)\<lparr>weights := w'\<rparr>\<rparr>)
                   in side_effects cfg ext ep niter i loss correct tr2)))"

text \<open>
  Lines 118 to 179: \<^verbatim>\<open>for iteration in range(start_iter, niter)\<close>, each iteration taking
  \<^verbatim>\<open>next(loader)\<close>, which raises \<^verbatim>\<open>StopIteration\<close> on an exhausted loader and
  \<^verbatim>\<open>RuntimeError\<close> on a batch that does not collate.
\<close>

fun iterations ::
  "config \<Rightarrow> 'w ext \<Rightarrow> int \<Rightarrow> int \<Rightarrow> int list \<Rightarrow> batch list \<Rightarrow> 'w trainer \<Rightarrow> 'w trainer outcome"
where
  "iterations cfg ext ep niter [] loader tr = (tr, None)"
| "iterations cfg ext ep niter (i # is) [] tr = (tr, Some StopIteration)"
| "iterations cfg ext ep niter (i # is) (b # loader) tr =
     (if \<not> collates b then (tr, Some RuntimeError)
      else and_then (train_iteration cfg ext ep niter i b tr)
             (iterations cfg ext ep niter is loader))"

text \<open>
  Lines 108 to 182, one epoch. The state of the loop over the epochs is the local variable
  \<^verbatim>\<open>start_iter\<close> and the trainer.
\<close>

definition epoch_body ::
  "config \<Rightarrow> 'w ext \<Rightarrow> int \<Rightarrow> int \<times> 'w trainer \<Rightarrow> (int \<times> 'w trainer) outcome" where
  "epoch_body cfg ext ep st =
     (let start_iter = fst st;
          tr1 = net_train (snd st)
      in case data_loader (train_dataset ext) (batch_size cfg) True True (shuffle ext ep) of
           Inl e \<Rightarrow> ((start_iter, tr1), Some e)
         | Inr loader \<Rightarrow>
             (let niter = loader_len (batch_size cfg) True (length (train_dataset ext))
              in case iterations cfg ext ep niter [start_iter..niter - 1] loader tr1 of
                   (tr2, Some e) \<Rightarrow> ((start_iter, tr2), Some e)
                 | (tr2, None) \<Rightarrow> ((0, emit Scheduler_step tr2), None)))"

text \<open>Line 107: \<^verbatim>\<open>for epoch in range(start_epoch, cfg.num_epoch)\<close>.\<close>

fun epochs ::
  "config \<Rightarrow> 'w ext \<Rightarrow> int list \<Rightarrow> int \<times> 'w trainer \<Rightarrow> (int \<times> 'w trainer) outcome" where
  "epochs cfg ext [] st = (st, None)"
| "epochs cfg ext (ep # eps) st = and_then (epoch_body cfg ext ep st) (epochs cfg ext eps)"

text \<open>
  Lines 90 to 93. The file system maps the paths that exist to the checkpoints they hold.
\<close>

definition resume :: "config \<Rightarrow> (string \<rightharpoonup> 'w checkpoint) \<Rightarrow> 'w trainer \<Rightarrow> 'w trainer" where
  "resume cfg fs tr =
     (case fs (ckpt_path cfg) of
        Some ck \<Rightarrow> load_ckpt (ckpt_path cfg) ck tr
      | None \<Rightarrow> emit (Ckpt_not_found (ckpt_path cfg)) tr)"

text \<open>
  \<^verbatim>\<open>train()\<close>. The loader of line 79 is only used for its length and never iterated; its
  constructor raises before the trainer exists.
\<close>

definition train ::
  "config \<Rightarrow> 'w ext \<Rightarrow> (string \<rightharpoonup> 'w checkpoint) \<Rightarrow> py_error + 'w trainer outcome" where
  "train cfg ext fs =
     (case data_loader (train_dataset ext) (batch_size cfg) True True (\<lambda>xs. xs) of
        Inl e \<Rightarrow> Inl e
      | Inr _ \<Rightarrow>
          (let tr1 = resume cfg fs (new_trainer ext);
               tr2 = emit (Info_sizes (int (length (train_dataset ext)))
                             (loader_len (batch_size cfg) True (length (train_dataset ext)))) tr1;
               tr3 = emit Add_graph tr2;
               start_iter = iteration tr3;
               start_epoch = epoch tr3
           in case epochs cfg ext [start_epoch..num_epoch cfg - 1] (start_iter, tr3) of
                ((_, tr4), err) \<Rightarrow> Inr (tr4, err)))"

text \<open>The script: the configuration at import time, then \<^verbatim>\<open>train()\<close>.\<close>

definition main ::
  "(string list \<Rightarrow> py_error + 'a) \<Rightarrow> ('a \<Rightarrow> py_error + config) \<Rightarrow> 'w ext
     \<Rightarrow> (string \<rightharpoonup> 'w checkpoint) \<Rightarrow> string list \<Rightarrow> py_error + 'w trainer outcome" where
  "main parse_args load_cfg ext fs sys_argv =
     (case startup_config parse_args load_cfg sys_argv of
        Inl e \<Rightarrow> Inl e
      | Inr (config_file, cfg) \<Rightarrow> train cfg ext fs)"

subsection \<open>Reading a trace\<close>

text \<open>The events of the held-out pass: evaluation mode, forward passes without gradient
  tracking, the final log line.\<close>

fun is_test_event :: "event \<Rightarrow> bool" where
  "is_test_event Net_eval = True"
| "is_test_event (Forward g b) = (\<not> g)"
| "is_test_event (Test_log l a) = True"
| "is_test_event ev = False"

text \<open>The optimizer's and the scheduler's steps of a trace, in order.\<close>

fun is_progress :: "event \<Rightarrow> bool" where
  "is_progress (Optimizer_step ep i) = True"
| "is_progress Scheduler_step = True"
| "is_progress ev = False"

text \<open>The batches of the forward passes of the training loop, in order.\<close>

fun train_batches :: "event list \<Rightarrow> batch list" where
  "train_batches [] = []"
| "train_batches (Forward g b # evs) = (if g then b # train_batches evs else train_batches evs)"
| "train_batches (ev # evs) = train_batches evs"

text \<open>The events the cadence checks of iteration \<open>i\<close> can add to the trace.\<close>

definition side_event :: "int \<Rightarrow> int \<Rightarrow> int \<Rightarrow> real \<Rightarrow> real \<Rightarrow> event \<Rightarrow> bool" where
  "side_event ep niter i loss correct ev \<longleftrightarrow>
     is_test_event ev \<or> ev = Net_train \<or> ev = Log_scalars ep i (ep * niter + i) loss correct
     \<or> ev = Add_image (ep * niter + i) \<or> ev = Update_ckpt ep i"

subsection \<open>Concrete inputs for the examples\<close>

text \<open>A network with one parameter that scales its first input, an optimizer that adds one
  to the parameter, a sampler that keeps the order, and samples of one element each.\<close>

definition toy_ext :: "sample list \<Rightarrow> sample list \<Rightarrow> real ext" where
  "toy_ext train_data test_data =
     \<lparr>forward = (\<lambda>w training bx bt. bx\<lparr>elems := map (\<lambda>x. w * x) (elems bx)\<rparr>),
      optimizer_step = (\<lambda>w loss. w + 1),
      shuffle = (\<lambda>ep xs. xs), train_dataset = train_data, test_dataset = test_data,
      init_weights = 1\<rparr>"

definition smp :: "real \<Rightarrow> real \<Rightarrow> sample" where
  "smp x t = \<lparr>BX = \<lparr>shape = [1], elems = [x]\<rparr>, BT = \<lparr>shape = [1], elems = [0]\<rparr>,
             tgt = \<lparr>shape = [1], elems = [t]\<rparr>\<rparr>"

definition base_cfg :: config where
  "base_cfg =
     \<lparr>batch_size = 2, num_threads = 1, num_epoch = 2, freq_plot = 2, freq_show = 3,
      freq_save = 4, freq_eval = 5, ckpt_path = ''ckpt.pth'', name = ''example'',
      overfit = False\<rparr>"

section \<open>Properties\<close>

subsection \<open>Unfolding the model on concrete inputs\<close>

lemma upto_0_1: "[0..1::int] = [0, 1]"
  by (simp add: upto_rec1)

lemmas tensor_defs = mse_loss_def eq_mean_def eq_mean_broadcast_def broadcast_shapes_def
  expand_def chop_def binarize_def masked_fill_def stack_def stackable_def collates_def
  data_BX_def data_BT_def targets_def Let_def

lemmas toy_defs = epoch_body_def and_then_def train_iteration_def side_effects_def plot_step_def
  show_step_def save_step_def eval_step_def due_def py_mod_def base_cfg_def toy_ext_def
  new_trainer_def smp_def tensor_defs emit_def net_train_def data_loader_def loader_len_def
  upto_0_1

subsection \<open>Command line\<close>

lemma index_of_absent: "x \<notin> set xs \<Longrightarrow> index_of x xs = Inl ValueError"
  by (induction xs) auto

lemma index_of_first: "x \<notin> set pre \<Longrightarrow> index_of x (pre @ x # post) = Inr (length pre)"
  by (induction pre) auto

text \<open>
  C9. When the command line holds the separator \<open>--\<close>, the parsed \<open>config_file\<close> and the
  configuration are those of the arguments between the program name and the first
  separator: two command lines that agree up to the first separator give the same result,
  whatever follows it.
\<close>

theorem startup_config_ignores_overrides:
  assumes "''--'' \<notin> set pre"
  shows "startup_config parse_args load_cfg (pre @ ''--'' # post) =
           startup_config parse_args load_cfg (pre @ ''--'' # post')
       \<and> startup_config parse_args load_cfg (pre @ ''--'' # post) =
           (case parse_args (drop 1 pre) of
              Inl e \<Rightarrow> Inl e
            | Inr config_file \<Rightarrow>
                (case load_cfg config_file of
                   Inl e \<Rightarrow> Inl e
                 | Inr cfg \<Rightarrow> Inr (config_file, cfg)))"
  using assms by (simp add: startup_config_def py_slice_def index_of_first)

theorem startup_config_ignores_overrides_witness:
  "startup_config (\<lambda>a. Inr (last a)) Inr
       ([''train_net.py'', ''-cfg'', ''a.yaml''] @ ''--'' # [''learning_rate'', ''1.0''])
     = Inr (''a.yaml'', ''a.yaml'')
   \<and> startup_config (\<lambda>a. Inr (last a)) Inr
       ([''train_net.py'', ''-cfg'', ''a.yaml''] @ ''--'' # [])
     = Inr (''a.yaml'', ''a.yaml'')"
proof -
  have sep: "''--'' \<notin> set [''train_net.py'', ''-cfg'', ''a.yaml'']" by simp
  from startup_config_ignores_overrides [OF sep,
        of "\<lambda>a. Inr (last a)" Inr
           "[''learning_rate'', ''1.0'']" "[]"]
  show ?thesis by auto
qed

text \<open>
  C10. A command line without the separator \<open>--\<close> raises \<^verbatim>\<open>ValueError\<close> at line 25,
  whatever the argument parser and the configuration loader would do: neither is reached,
  and the script ends before \<^verbatim>\<open>train\<close> creates any state.
\<close>

theorem startup_config_without_separator:
  assumes "''--'' \<notin> set sys_argv"
  shows "startup_config parse_args load_cfg sys_argv = Inl ValueError
       \<and> main parse_args load_config ext fs sys_argv = Inl ValueError"
  using assms by (simp add: startup_config_def main_def index_of_absent)

theorem startup_config_without_separator_witness:
  "startup_config (\<lambda>a. Inr (last a)) Inr [''train_net.py'', ''-cfg'', ''a.yaml'']
     = Inl ValueError
   \<and> main (\<lambda>a. Inr (last a)) (\<lambda>p. Inr base_cfg) (toy_ext [] []) Map.empty
       [''train_net.py'', ''-cfg'', ''a.yaml''] = Inl ValueError"
proof -
  have sep: "''--'' \<notin> set [''train_net.py'', ''-cfg'', ''a.yaml'']" by simp
  show ?thesis
    by (rule startup_config_without_separator [OF sep])
qed

subsection \<open>Binarization\<close>

lemma masked_fill_map:
  "masked_fill t (map p (elems t)) v = t\<lparr>elems := map (\<lambda>x. if p x then v else x) (elems t)\<rparr>"
proof -
  have "map (\<lambda>(x, m). if m then v else x) (zip xs (map p xs)) = map (\<lambda>x. if p x then v else x) xs"
    for xs by (induction xs) simp_all
  then show ?thesis by (simp add: masked_fill_def)
qed

lemma binarize_map:
  "binarize pred = pred\<lparr>elems := map (\<lambda>x. if x < 1/2 then 0 else 1) (elems pred)\<rparr>"
proof -
  have "map (\<lambda>x. if 1/2 \<le> x then 1 else x) (map (\<lambda>x. if x < 1/2 then 0 else x) xs)
          = map (\<lambda>x. if x < 1/2 then 0 else 1) xs" for xs :: "real list"
    by (induction xs) auto
  then show ?thesis
    unfolding binarize_def Let_def masked_fill_map
    using masked_fill_map [of "pred\<lparr>elems := map (\<lambda>x. if x < 1/2 then 0 else x) (elems pred)\<rparr>"
        "\<lambda>x. 1/2 \<le> x" 1]
    by simp
qed

lemma shape_binarize: "shape (binarize pred) = shape pred"
  by (simp add: binarize_map)

subsection \<open>Held-out evaluation\<close>

lemma test_loop_trace:
  "test_loop ext nt bs (l, c, tr) = ((l', c', tr'), err) \<Longrightarrow>
     \<exists>new. tr' = tr @ new \<and> list_all is_test_event new"
proof (induction bs arbitrary: l c tr)
  case Nil
  then show ?case by simp
next
  case (Cons b bs)
  let ?out = "forward ext (weights nt) (training nt) (data_BX b) (data_BT b)"
  show ?case
  proof (cases "collates b")
    case False
    with Cons.prems show ?thesis by simp
  next
    case col: True
    show ?thesis
    proof (cases "mse_loss ?out (targets b)")
      case (Inl e)
      with Cons.prems col show ?thesis by (auto simp: Let_def)
    next
      case (Inr lv)
      note mse = this
      show ?thesis
      proof (cases "eq_mean (binarize ?out) (targets b)")
        case (Inl e)
        with Cons.prems col mse show ?thesis by (auto simp: Let_def)
      next
        case (Inr cv)
        with Cons.prems col mse
        have "test_loop ext nt bs (l + lv, c + cv, tr @ [Forward False b]) = ((l', c', tr'), err)"
          by (simp add: Let_def)
        from Cons.IH [OF this] show ?thesis by auto
      qed
    qed
  qed
qed

lemma test_trace:
  "\<exists>new. snd (fst (test cfg ext nt logger)) = logger @ new \<and> list_all is_test_event new"
proof (cases "data_loader (test_dataset ext) (batch_size cfg) False False (\<lambda>xs. xs)")
  case (Inl e)
  then show ?thesis by (simp add: test_def Let_def)
next
  case (Inr ld)
  obtain l' c' tr' err where
    r: "test_loop ext (nt\<lparr>training := False\<rparr>) ld (0, 0, logger @ [Net_eval]) = ((l', c', tr'), err)"
    by (metis prod_cases3 surj_pair)
  from test_loop_trace [OF r] obtain new
    where "tr' = (logger @ [Net_eval]) @ new" "list_all is_test_event new"
    by blast
  with Inr r show ?thesis
    by (cases err) (auto simp: test_def Let_def)
qed

lemma test_net: "fst (fst (test cfg ext nt logger)) = nt\<lparr>training := False\<rparr>"
  by (auto simp: test_def Let_def split: sum.splits prod.splits option.splits)

lemma test_again: "test cfg ext (nt\<lparr>training := False\<rparr>) logger = test cfg ext nt logger"
  by (simp add: test_def Let_def)

lemma test_loop_prefix:
  "test_loop ext nt bs (l, c, tr) =
     (case test_loop ext nt bs (l, c, []) of ((l', c', new), err) \<Rightarrow> ((l', c', tr @ new), err))"
proof (induction bs arbitrary: l c tr)
  case Nil
  show ?case by simp
next
  case (Cons b bs)
  let ?out = "forward ext (weights nt) (training nt) (data_BX b) (data_BT b)"
  show ?case
  proof (cases "collates b")
    case False
    then show ?thesis by simp
  next
    case col: True
    show ?thesis
    proof (cases "mse_loss ?out (targets b)")
      case (Inl e)
      with col show ?thesis by (simp add: Let_def)
    next
      case (Inr lv)
      note mse = this
      show ?thesis
      proof (cases "eq_mean (binarize ?out) (targets b)")
        case (Inl e)
        with col mse show ?thesis by (simp add: Let_def)
      next
        case (Inr cv)
        have 1: "test_loop ext nt (b # bs) (l, c, tr)
                   = test_loop ext nt bs (l + lv, c + cv, tr @ [Forward False b])"
          using col mse Inr by (simp add: Let_def)
        have 2: "test_loop ext nt (b # bs) (l, c, [])
                   = test_loop ext nt bs (l + lv, c + cv, [Forward False b])"
          using col mse Inr by (simp add: Let_def)
        show ?thesis
          unfolding 1 2
          by (subst Cons.IH [of _ _ "tr @ [Forward False b]"],
              subst Cons.IH [of _ _ "[Forward False b]"])
            (simp split: prod.splits)
      qed
    qed
  qed
qed

lemma test_prefix:
  "test cfg ext nt logger =
     (case test cfg ext nt [] of ((nt', new), err) \<Rightarrow> ((nt', logger @ new), err))"
proof (cases "data_loader (test_dataset ext) (batch_size cfg) False False (\<lambda>xs. xs)")
  case (Inl e)
  then show ?thesis by (simp add: test_def Let_def)
next
  case (Inr ld)
  obtain l' c' new err where
    r: "test_loop ext (nt\<lparr>training := False\<rparr>) ld (0, 0, []) = ((l', c', new), err)"
    by (metis prod_cases3 surj_pair)
  have 1: "test_loop ext (nt\<lparr>training := False\<rparr>) ld (0, 0, logger @ [Net_eval])
             = ((l', c', (logger @ [Net_eval]) @ new), err)"
    by (subst test_loop_prefix) (simp add: r)
  have 2: "test_loop ext (nt\<lparr>training := False\<rparr>) ld (0, 0, [Net_eval])
             = ((l', c', [Net_eval] @ new), err)"
    by (subst test_loop_prefix) (simp add: r)
  show ?thesis
    using Inr 1 2 by (cases err) (simp_all add: test_def Let_def)
qed

lemma toy_test_run:
  "test base_cfg (toy_ext [] [smp 1 1, smp 0 1, smp 1 1, smp 0 1])
       \<lparr>weights = 1, training = True\<rparr> []
     = ((\<lparr>weights = 1, training = False\<rparr>,
         [Net_eval, Forward False [smp 1 1, smp 0 1], Forward False [smp 1 1, smp 0 1],
          Test_log (1/4) 25]), None)"
  by (simp add: test_def base_cfg_def toy_ext_def smp_def data_loader_def tensor_defs)

text \<open>
  C2. The values the held-out helper logs are not the averages over the batches of the
  pass. With four held-out samples and a batch size of two there are two batches, each
  with mean squared error \<open>1/2\<close> and thresholded accuracy \<open>1/2\<close>; the accumulated sums \<open>1\<close>
  and \<open>1\<close> are divided by the four samples of the data set, and the log line reads a loss
  of \<open>1/4\<close> and an accuracy of \<open>25\<close> percent, where the averages over the two batches are
  \<open>1/2\<close> and \<open>50\<close> percent.
\<close>

theorem test_divides_by_dataset_size:
  "snd (fst (test base_cfg (toy_ext [] [smp 1 1, smp 0 1, smp 1 1, smp 0 1])
                \<lparr>weights = 1, training = True\<rparr> []))
     = [Net_eval, Forward False [smp 1 1, smp 0 1], Forward False [smp 1 1, smp 0 1],
        Test_log (1/4) 25]
   \<and> mse_loss (data_BX [smp 1 1, smp 0 1]) (targets [smp 1 1, smp 0 1]) = Inr (1/2)
   \<and> eq_mean (binarize (data_BX [smp 1 1, smp 0 1])) (targets [smp 1 1, smp 0 1]) = Inr (1/2)
   \<and> Test_log (1/4) 25 \<noteq> Test_log ((1/2 + 1/2) / 2) (100 * (1/2 + 1/2) / 2)"
  by (simp add: toy_test_run) (simp add: smp_def tensor_defs)

text \<open>
  C7. The held-out helper leaves the parameters of the network as they were; it only sets
  the evaluation mode. What it adds to the trace is the switch to evaluation mode,
  forward passes without gradient tracking and the log line: no forward pass with
  gradient tracking and no optimizer step. It keeps no state: called again on the network
  it returned, it adds to any log what a first call adds to an empty one, with the same
  outcome.
\<close>

theorem test_leaves_parameters:
  "weights (fst (fst (test cfg ext nt logger))) = weights nt
   \<and> (\<exists>new. snd (fst (test cfg ext nt logger)) = logger @ new
            \<and> (\<forall>ev \<in> set new. is_test_event ev \<and> (\<forall>b. ev \<noteq> Forward True b)
                  \<and> (\<forall>ep i. ev \<noteq> Optimizer_step ep i)))
   \<and> test cfg ext (fst (fst (test cfg ext nt logger))) logger' =
       (case test cfg ext nt [] of ((nt', new), err) \<Rightarrow> ((nt', logger' @ new), err))"
proof -
  from test_trace [of cfg ext nt logger] obtain new
    where new: "snd (fst (test cfg ext nt logger)) = logger @ new" "list_all is_test_event new"
    by (elim exE conjE)
  have "is_test_event ev \<Longrightarrow> (\<forall>b. ev \<noteq> Forward True b) \<and> (\<forall>ep i. ev \<noteq> Optimizer_step ep i)"
    for ev by (cases ev) auto
  with new(2) have k: "\<forall>ev \<in> set new. is_test_event ev \<and> (\<forall>b. ev \<noteq> Forward True b)
                  \<and> (\<forall>ep i. ev \<noteq> Optimizer_step ep i)"
    by (auto simp: list_all_iff)
  have a: "weights (fst (fst (test cfg ext nt logger))) = weights nt"
    by (simp add: test_net)
  have b: "test cfg ext (fst (fst (test cfg ext nt logger))) logger' =
       (case test cfg ext nt [] of ((nt', new), err) \<Rightarrow> ((nt', logger' @ new), err))"
    unfolding test_net test_again by (rule test_prefix)
  from new(1) k have c: "\<exists>new. snd (fst (test cfg ext nt logger)) = logger @ new
            \<and> (\<forall>ev \<in> set new. is_test_event ev \<and> (\<forall>b. ev \<noteq> Forward True b)
                  \<and> (\<forall>ep i. ev \<noteq> Optimizer_step ep i))"
    by (intro exI [of _ new] conjI)
  from a c b show ?thesis by (intro conjI)
qed

theorem test_leaves_parameters_witness:
  "weights (fst (fst (test base_cfg (toy_ext [] [smp 1 1, smp 0 1, smp 1 1, smp 0 1])
                        \<lparr>weights = 1, training = True\<rparr> []))) = 1
   \<and> test base_cfg (toy_ext [] [smp 1 1, smp 0 1, smp 1 1, smp 0 1])
        (fst (fst (test base_cfg (toy_ext [] [smp 1 1, smp 0 1, smp 1 1, smp 0 1])
                        \<lparr>weights = 1, training = True\<rparr> []))) [Add_graph]
     = ((\<lparr>weights = 1, training = False\<rparr>,
         [Add_graph, Net_eval, Forward False [smp 1 1, smp 0 1],
          Forward False [smp 1 1, smp 0 1], Test_log (1/4) 25]), None)"
  using test_leaves_parameters [of base_cfg "toy_ext [] [smp 1 1, smp 0 1, smp 1 1, smp 0 1]"
      "\<lparr>weights = 1, training = True\<rparr>" "[]" "[Add_graph]"]
  unfolding toy_test_run by simp

subsection \<open>Cadence of the side effects\<close>

lemma due_nonzero: "freq \<noteq> 0 \<Longrightarrow> due i freq = Inr (0 < i \<and> freq dvd i)"
  by (auto simp: due_def py_mod_def dvd_eq_mod_eq_0)

lemma due_zero: "due i 0 = Inl ZeroDivisionError"
  by (simp add: due_def py_mod_def)

lemma trace_emit [simp]: "trace (emit ev tr) = trace tr @ [ev]"
  by (simp add: emit_def)

lemma net_emit [simp]: "net (emit ev tr) = net tr"
  by (simp add: emit_def)

lemma eval_step_trace:
  "\<exists>new. trace (fst (eval_step cfg ext i tr)) = trace tr @ new
         \<and> list_all (\<lambda>ev. is_test_event ev \<or> ev = Net_train) new"
proof (cases "freq_eval cfg = 0")
  case True
  then show ?thesis by (simp add: eval_step_def due_zero)
next
  case nz: False
  show ?thesis
  proof (cases "0 < i \<and> freq_eval cfg dvd i \<and> \<not> overfit cfg")
    case False
    with nz show ?thesis by (auto simp: eval_step_def due_nonzero)
  next
    case True
    let ?tr1 = "net_eval tr"
    obtain nt lg err where t: "test cfg ext (net ?tr1) (trace ?tr1) = ((nt, lg), err)"
      by (metis surj_pair)
    from test_trace [of cfg ext "net ?tr1" "trace ?tr1"] t obtain new
      where new: "lg = trace ?tr1 @ new" "list_all is_test_event new" by auto
    have tr1: "trace ?tr1 = trace tr @ [Net_eval]" by (simp add: net_eval_def)
    have "list_all (\<lambda>ev. is_test_event ev \<or> ev = Net_train) new"
      using new(2) by (auto simp: list_all_iff)
    with True nz t new(1) tr1 show ?thesis
      by (cases err) (auto simp: eval_step_def due_nonzero Let_def net_train_def)
  qed
qed

lemma plot_step_eq:
  "plot_step cfg ep niter i loss correct tr =
     (tr\<lparr>trace := trace tr @ (if 0 < i \<and> freq_plot cfg dvd i
                               then [Log_scalars ep i (ep * niter + i) loss correct] else [])\<rparr>,
      if freq_plot cfg = 0 then Some ZeroDivisionError else None)"
  by (cases "freq_plot cfg = 0") (simp_all add: plot_step_def due_zero due_nonzero emit_def)

lemma show_step_eq:
  "show_step cfg ep niter i tr =
     (tr\<lparr>trace := trace tr @ (if 0 < i \<and> freq_show cfg dvd i
                               then [Add_image (ep * niter + i)] else [])\<rparr>,
      if freq_show cfg = 0 then Some ZeroDivisionError else None)"
  by (cases "freq_show cfg = 0") (simp_all add: show_step_def due_zero due_nonzero emit_def)

lemma save_step_eq:
  "save_step cfg ep i tr =
     (tr\<lparr>trace := trace tr @ (if 0 < i \<and> freq_save cfg dvd i \<and> \<not> overfit cfg
                               then [Update_ckpt ep i] else [])\<rparr>,
      if freq_save cfg = 0 then Some ZeroDivisionError else None)"
  by (cases "freq_save cfg = 0") (simp_all add: save_step_def due_zero due_nonzero emit_def)

lemma eval_step_eq:
  "eval_step cfg ext i tr =
     (if freq_eval cfg = 0 then (tr, Some ZeroDivisionError)
      else if 0 < i \<and> freq_eval cfg dvd i \<and> \<not> overfit cfg then
         (case test cfg ext ((net tr)\<lparr>training := False\<rparr>) (trace tr @ [Net_eval]) of
              ((nt, lg), None) \<Rightarrow>
                (tr\<lparr>net := nt\<lparr>training := True\<rparr>, trace := lg @ [Net_train]\<rparr>, None)
            | ((nt, lg), Some e) \<Rightarrow> (tr\<lparr>net := nt, trace := lg\<rparr>, Some e))
      else (tr, None))"
  by (cases "freq_eval cfg = 0")
    (simp_all add: eval_step_def due_zero due_nonzero emit_def net_eval_def net_train_def Let_def
      split: prod.splits option.splits)

text \<open>
  C1, as the four checks are written. The checks of an iteration \<open>i\<close> run in the order
  scalars, image, checkpoint, evaluation, and a check whose frequency is \<open>0\<close> raises
  \<^verbatim>\<open>ZeroDivisionError\<close>, whatever \<open>overfit\<close> is, which ends the iteration before the later
  checks. So the scalars are logged exactly when \<open>i\<close> is positive and divisible by
  \<open>freq_plot\<close>; the image is rendered exactly when moreover \<open>freq_plot\<close> is not \<open>0\<close> and \<open>i\<close>
  is positive and divisible by \<open>freq_show\<close>; the checkpoint is saved exactly when neither
  of these two frequencies is \<open>0\<close>, \<open>i\<close> is positive and divisible by \<open>freq_save\<close> and
  \<open>overfit\<close> is false; the held-out evaluation runs exactly when none of the first three
  frequencies is \<open>0\<close>, \<open>i\<close> is positive and divisible by \<open>freq_eval\<close> and \<open>overfit\<close> is
  false. The evaluation is: evaluation mode, the call of \<^verbatim>\<open>test\<close> on the network and the
  log, and training mode again once \<^verbatim>\<open>test\<close> has returned; an exception of \<^verbatim>\<open>test\<close> ends
  the iteration in evaluation mode. Nothing else changes: at iteration \<open>0\<close> with
  frequencies that are not \<open>0\<close> the trainer is left as it was, and \<open>overfit\<close> suppresses
  the checkpoint and the evaluation only.
\<close>

theorem side_effects_cadence:
  "side_effects cfg ext ep niter i loss correct tr =
     (let logs = (0 < i \<and> freq_plot cfg dvd i);
          renders = (freq_plot cfg \<noteq> 0 \<and> 0 < i \<and> freq_show cfg dvd i);
          saves = (freq_plot cfg \<noteq> 0 \<and> freq_show cfg \<noteq> 0
                     \<and> 0 < i \<and> freq_save cfg dvd i \<and> \<not> overfit cfg);
          evaluates = (freq_plot cfg \<noteq> 0 \<and> freq_show cfg \<noteq> 0 \<and> freq_save cfg \<noteq> 0
                     \<and> 0 < i \<and> freq_eval cfg dvd i \<and> \<not> overfit cfg);
          tr3 = tr\<lparr>trace := trace tr
                  @ (if logs then [Log_scalars ep i (ep * niter + i) loss correct] else [])
                  @ (if renders then [Add_image (ep * niter + i)] else [])
                  @ (if saves then [Update_ckpt ep i] else [])\<rparr>
      in if freq_plot cfg = 0 \<or> freq_show cfg = 0 \<or> freq_save cfg = 0 \<or> freq_eval cfg = 0
         then (tr3, Some ZeroDivisionError)
         else if evaluates then
           (case test cfg ext ((net tr)\<lparr>training := False\<rparr>) (trace tr3 @ [Net_eval]) of
              ((nt, lg), None) \<Rightarrow>
                (tr\<lparr>net := nt\<lparr>training := True\<rparr>, trace := lg @ [Net_train]\<rparr>, None)
            | ((nt, lg), Some e) \<Rightarrow> (tr\<lparr>net := nt, trace := lg\<rparr>, Some e))
         else (tr3, None))"
proof -
  define P where "P = (if 0 < i \<and> freq_plot cfg dvd i
      then [Log_scalars ep i (ep * niter + i) loss correct] else [])"
  define S where "S = (if 0 < i \<and> freq_show cfg dvd i then [Add_image (ep * niter + i)] else [])"
  define V where
    "V = (if 0 < i \<and> freq_save cfg dvd i \<and> \<not> overfit cfg then [Update_ckpt ep i] else [])"
  have P0: "freq_plot cfg = 0 \<Longrightarrow> P = []" by (simp add: P_def)
  have S0: "freq_show cfg = 0 \<Longrightarrow> S = []" by (simp add: S_def)
  have V0: "freq_save cfg = 0 \<Longrightarrow> V = []" by (simp add: V_def)
  have lhs: "side_effects cfg ext ep niter i loss correct tr =
      (if freq_plot cfg = 0 then (tr\<lparr>trace := trace tr @ P\<rparr>, Some ZeroDivisionError)
       else if freq_show cfg = 0 then (tr\<lparr>trace := trace tr @ P @ S\<rparr>, Some ZeroDivisionError)
       else if freq_save cfg = 0 then (tr\<lparr>trace := trace tr @ P @ S @ V\<rparr>, Some ZeroDivisionError)
       else eval_step cfg ext i (tr\<lparr>trace := trace tr @ P @ S @ V\<rparr>))"
    unfolding side_effects_def plot_step_eq show_step_eq save_step_eq
    unfolding P_def [symmetric] S_def [symmetric] V_def [symmetric]
    by (simp add: and_then_def)
  have rhs: "(let logs = (0 < i \<and> freq_plot cfg dvd i);
          renders = (freq_plot cfg \<noteq> 0 \<and> 0 < i \<and> freq_show cfg dvd i);
          saves = (freq_plot cfg \<noteq> 0 \<and> freq_show cfg \<noteq> 0
                     \<and> 0 < i \<and> freq_save cfg dvd i \<and> \<not> overfit cfg);
          evaluates = (freq_plot cfg \<noteq> 0 \<and> freq_show cfg \<noteq> 0 \<and> freq_save cfg \<noteq> 0
                     \<and> 0 < i \<and> freq_eval cfg dvd i \<and> \<not> overfit cfg);
          tr3 = tr\<lparr>trace := trace tr
                  @ (if logs then [Log_scalars ep i (ep * niter + i) loss correct] else [])
                  @ (if renders then [Add_image (ep * niter + i)] else [])
                  @ (if saves then [Update_ckpt ep i] else [])\<rparr>
      in if freq_plot cfg = 0 \<or> freq_show cfg = 0 \<or> freq_save cfg = 0 \<or> freq_eval cfg = 0
         then (tr3, Some ZeroDivisionError)
         else if evaluates then
           (case test cfg ext ((net tr)\<lparr>training := False\<rparr>) (trace tr3 @ [Net_eval]) of
              ((nt, lg), None) \<Rightarrow>
                (tr\<lparr>net := nt\<lparr>training := True\<rparr>, trace := lg @ [Net_train]\<rparr>, None)
            | ((nt, lg), Some e) \<Rightarrow> (tr\<lparr>net := nt, trace := lg\<rparr>, Some e))
         else (tr3, None))
     = (if freq_plot cfg = 0 then (tr\<lparr>trace := trace tr @ P\<rparr>, Some ZeroDivisionError)
       else if freq_show cfg = 0 then (tr\<lparr>trace := trace tr @ P @ S\<rparr>, Some ZeroDivisionError)
       else if freq_save cfg = 0 then (tr\<lparr>trace := trace tr @ P @ S @ V\<rparr>, Some ZeroDivisionError)
       else eval_step cfg ext i (tr\<lparr>trace := trace tr @ P @ S @ V\<rparr>))"
  proof -
    have Pe: "(if 0 < i \<and> freq_plot cfg dvd i
                then [Log_scalars ep i (ep * niter + i) loss correct] else []) = P"
      by (simp add: P_def)
    have Se: "(if freq_plot cfg \<noteq> 0 \<and> 0 < i \<and> freq_show cfg dvd i
                then [Add_image (ep * niter + i)] else [])
              = (if freq_plot cfg = 0 then [] else S)"
      by (simp add: S_def)
    have Ve: "(if freq_plot cfg \<noteq> 0 \<and> freq_show cfg \<noteq> 0
                     \<and> 0 < i \<and> freq_save cfg dvd i \<and> \<not> overfit cfg
                then [Update_ckpt ep i] else [])
              = (if freq_plot cfg = 0 \<or> freq_show cfg = 0 then [] else V)"
      by (simp add: V_def)
    show ?thesis
      unfolding Let_def Pe Se Ve eval_step_eq
      by (simp add: P0 S0 V0 split: prod.splits option.splits)
  qed
  show ?thesis unfolding lhs rhs ..
qed

text \<open>At iteration \<open>20\<close> with frequencies \<open>2\<close>, \<open>3\<close>, \<open>4\<close>, \<open>5\<close> and one held-out sample:
  scalars, checkpoint and evaluation, no image.\<close>

theorem side_effects_cadence_witness:
  "side_effects base_cfg (toy_ext [] [smp 1 1]) 0 30 20 (1/2) 1
       (new_trainer (toy_ext [] [smp 1 1]))
     = (\<lparr>net = \<lparr>weights = 1, training = True\<rparr>, iteration = 0, epoch = 0,
         trace = [Log_scalars 0 20 20 (1/2) 1, Update_ckpt 0 20, Net_eval, Net_eval,
                  Forward False [smp 1 1], Test_log 0 100, Net_train]\<rparr>, None)"
  using side_effects_cadence [of base_cfg "toy_ext [] [smp 1 1]" 0 30 20 "1/2" 1
      "new_trainer (toy_ext [] [smp 1 1])"]
  by (simp add: test_def base_cfg_def toy_ext_def new_trainer_def smp_def data_loader_def
      tensor_defs)

text \<open>
  As stated, with each effect depending on its own frequency only, the claim fails. With
  \<open>freq_plot = 0\<close> and \<open>freq_show = 5\<close>, a run resumed at iteration \<open>5\<close> of an epoch of six
  batches does the forward pass and the optimizer step of iteration \<open>5\<close>; then the first
  check raises \<^verbatim>\<open>ZeroDivisionError\<close>, and no image is rendered, though \<open>5\<close> is a positive
  multiple of \<open>freq_show\<close>.
\<close>

theorem train_zero_frequency:
  "train (base_cfg\<lparr>batch_size := 1, freq_plot := 0, freq_show := 5\<rparr>)
       (toy_ext [smp 1 1, smp 2 1, smp 3 1, smp 4 1, smp 5 1, smp 6 1] [])
       [''ckpt.pth'' \<mapsto> \<lparr>ck_weights = 1, ck_epoch = 0, ck_iteration = 5\<rparr>]
     = Inr (\<lparr>net = \<lparr>weights = 2, training = True\<rparr>, iteration = 5, epoch = 0,
             trace = [Ckpt_loaded ''ckpt.pth'', Info_sizes 6 6, Add_graph, Net_train,
                      Forward True [smp 1 1], Optimizer_step 0 5]\<rparr>,
            Some ZeroDivisionError)
   \<and> (0::int) < 5
   \<and> freq_show (base_cfg\<lparr>batch_size := 1, freq_plot := 0, freq_show := 5\<rparr>) dvd 5"
  by (simp add: train_def resume_def load_ckpt_def toy_defs)

subsection \<open>One iteration\<close>

lemma eval_step_weights: "weights (net (fst (eval_step cfg ext i tr))) = weights (net tr)"
proof -
  let ?tr1 = "net_eval tr"
  obtain nt lg err where t: "test cfg ext (net ?tr1) (trace ?tr1) = ((nt, lg), err)"
    by (metis surj_pair)
  from test_net [of cfg ext "net ?tr1" "trace ?tr1"] t
  have "nt = (net ?tr1)\<lparr>training := False\<rparr>" by simp
  with t show ?thesis
    by (cases err)
      (auto simp: eval_step_def Let_def net_eval_def net_train_def emit_def split: sum.splits)
qed

lemma side_effects_weights:
  "weights (net (fst (side_effects cfg ext ep niter i loss correct tr))) = weights (net tr)"
  by (auto simp: side_effects_def and_then_def plot_step_def show_step_def save_step_def
      eval_step_weights emit_def split: sum.splits prod.splits option.splits)

lemma eq_mean_broadcast_binarize:
  "(\<forall>e. mse_loss out t = Inl e \<longrightarrow> eq_mean_broadcast (binarize out) t = Inl e)
   \<and> (\<forall>l. mse_loss out t = Inr l \<longrightarrow> (\<exists>c. eq_mean_broadcast (binarize out) t = Inr c))"
  by (auto simp: mse_loss_def eq_mean_broadcast_def shape_binarize split: sum.splits)

lemma and_then_trace:
  assumes "\<exists>new. trace (fst r) = trace tr @ new \<and> list_all Q new"
    and "\<And>s. \<exists>new. trace (fst (f s)) = trace s @ new \<and> list_all Q new"
  shows "\<exists>new. trace (fst (and_then r f)) = trace tr @ new \<and> list_all Q new"
proof (cases r)
  case (Pair s err)
  show ?thesis
  proof (cases err)
    case None
    from assms(1) Pair obtain n1 where n1: "trace s = trace tr @ n1" "list_all Q n1" by auto
    from assms(2) [of s] obtain n2 where n2: "trace (fst (f s)) = trace s @ n2" "list_all Q n2"
      by auto
    from n1 n2 have "trace (fst (f s)) = trace tr @ (n1 @ n2) \<and> list_all Q (n1 @ n2)" by simp
    with Pair None show ?thesis unfolding and_then_def by (simp only: prod.case option.case) blast
  next
    case (Some e)
    with Pair assms(1) show ?thesis by (simp add: and_then_def)
  qed
qed

lemma plot_step_trace:
  "\<exists>new. trace (fst (plot_step cfg ep niter i loss correct tr)) = trace tr @ new
         \<and> list_all (side_event ep niter i loss correct) new"
  by (auto simp: plot_step_def side_event_def split: sum.splits)

lemma show_step_trace:
  "\<exists>new. trace (fst (show_step cfg ep niter i tr)) = trace tr @ new
         \<and> list_all (side_event ep niter i loss correct) new"
  by (auto simp: show_step_def side_event_def split: sum.splits)

lemma save_step_trace:
  "\<exists>new. trace (fst (save_step cfg ep i tr)) = trace tr @ new
         \<and> list_all (side_event ep niter i loss correct) new"
  by (auto simp: save_step_def side_event_def split: sum.splits)

lemma eval_step_trace':
  "\<exists>new. trace (fst (eval_step cfg ext i tr)) = trace tr @ new
         \<and> list_all (side_event ep niter i loss correct) new"
proof -
  from eval_step_trace [of cfg ext i tr] obtain new
    where "trace (fst (eval_step cfg ext i tr)) = trace tr @ new"
      "list_all (\<lambda>ev. is_test_event ev \<or> ev = Net_train) new" by blast
  then show ?thesis by (auto simp: list_all_iff side_event_def)
qed

lemma side_effects_trace:
  "\<exists>new. trace (fst (side_effects cfg ext ep niter i loss correct tr)) = trace tr @ new
         \<and> list_all (side_event ep niter i loss correct) new"
  unfolding side_effects_def
  by (intro and_then_trace plot_step_trace show_step_trace save_step_trace eval_step_trace')

lemma side_event_log:
  "side_event ep niter i loss correct (Log_scalars ep' i' g l c) \<Longrightarrow> l = loss \<and> c = correct"
  by (simp add: side_event_def)

lemma train_iteration_log:
  "\<exists>new. trace (fst (train_iteration cfg ext ep niter i b tr)) = trace tr @ new
     \<and> (\<forall>ep' i' g l c. Log_scalars ep' i' g l c \<in> set new \<longrightarrow>
          mse_loss (forward ext (weights (net tr)) (training (net tr)) (data_BX b) (data_BT b))
            (targets b) = Inr l
          \<and> eq_mean_broadcast
              (binarize (forward ext (weights (net tr)) (training (net tr)) (data_BX b) (data_BT b)))
              (targets b) = Inr c)"
proof -
  let ?out = "forward ext (weights (net tr)) (training (net tr)) (data_BX b) (data_BT b)"
  show ?thesis
  proof (cases "mse_loss ?out (targets b)")
    case (Inl e)
    then have "train_iteration cfg ext ep niter i b tr = (emit (Forward True b) tr, Some e)"
      by (simp add: train_iteration_def Let_def)
    then show ?thesis by simp
  next
    case (Inr loss)
    with eq_mean_broadcast_binarize [of ?out "targets b"] obtain correct
      where c: "eq_mean_broadcast (binarize ?out) (targets b) = Inr correct" by auto
    define tr2 where "tr2 = emit (Optimizer_step ep i) ((emit (Forward True b) tr)
      \<lparr>net := (net (emit (Forward True b) tr))\<lparr>weights := optimizer_step ext (weights (net tr))
            (\<lambda>w. mse_loss (forward ext w (training (net tr)) (data_BX b) (data_BT b)) (targets b))\<rparr>\<rparr>)"
    have ti: "train_iteration cfg ext ep niter i b tr = side_effects cfg ext ep niter i loss correct tr2"
      using Inr c by (simp add: train_iteration_def Let_def tr2_def)
    have t2: "trace tr2 = trace tr @ [Forward True b, Optimizer_step ep i]"
      by (simp add: tr2_def emit_def)
    from side_effects_trace [of cfg ext ep niter i loss correct tr2] obtain new
      where new: "trace (fst (side_effects cfg ext ep niter i loss correct tr2)) = trace tr2 @ new"
        "list_all (side_event ep niter i loss correct) new" by blast
    have A: "\<forall>ep' i' g l c. Log_scalars ep' i' g l c \<in> set ([Forward True b, Optimizer_step ep i] @ new)
            \<longrightarrow> mse_loss ?out (targets b) = Inr l
              \<and> eq_mean_broadcast (binarize ?out) (targets b) = Inr c"
      unfolding Inr c using new(2) by (auto simp: list_all_iff dest: side_event_log)
    have B: "trace (fst (train_iteration cfg ext ep niter i b tr))
        = trace tr @ ([Forward True b, Optimizer_step ep i] @ new)"
      using ti new(1) t2 by simp
    show ?thesis
      by (rule exI [of _ "[Forward True b, Optimizer_step ep i] @ new"]) (rule conjI [OF B A])
  qed
qed

lemma train_iteration_weights:
  "weights (net (fst (train_iteration cfg ext ep niter i b tr))) =
     (case mse_loss (forward ext (weights (net tr)) (training (net tr)) (data_BX b) (data_BT b))
             (targets b) of
        Inl e \<Rightarrow> weights (net tr)
      | Inr loss \<Rightarrow>
          optimizer_step ext (weights (net tr))
            (\<lambda>w. mse_loss (forward ext w (training (net tr)) (data_BX b) (data_BT b)) (targets b)))"
proof -
  let ?out = "forward ext (weights (net tr)) (training (net tr)) (data_BX b) (data_BT b)"
  show ?thesis
  proof (cases "mse_loss ?out (targets b)")
    case (Inl e)
    then show ?thesis by (simp add: train_iteration_def Let_def)
  next
    case (Inr loss)
    with eq_mean_broadcast_binarize [of ?out "targets b"] obtain correct
      where c: "eq_mean_broadcast (binarize ?out) (targets b) = Inr correct" by auto
    show ?thesis
      using Inr c by (simp add: train_iteration_def Let_def side_effects_weights)
  qed
qed

text \<open>
  C4. The loss of an iteration is the mean squared error between the output of the network
  and the target, broadcast to their common shape. When the two shapes do not broadcast
  the iteration raises and the parameters stay as they were; otherwise the parameters
  after the iteration are one optimizer step on that loss as a function of the parameters.
  Every loss value the iteration logs is that loss. The binarized output enters neither:
  it only feeds the accuracy.
\<close>

theorem train_iteration_loss:
  "weights (net (fst (train_iteration cfg ext ep niter i b tr))) =
     (case mse_loss (forward ext (weights (net tr)) (training (net tr)) (data_BX b) (data_BT b))
             (targets b) of
        Inl e \<Rightarrow> weights (net tr)
      | Inr loss \<Rightarrow>
          optimizer_step ext (weights (net tr))
            (\<lambda>w. mse_loss (forward ext w (training (net tr)) (data_BX b) (data_BT b)) (targets b)))
   \<and> (\<forall>e. mse_loss (forward ext (weights (net tr)) (training (net tr)) (data_BX b) (data_BT b))
             (targets b) = Inl e \<longrightarrow>
          train_iteration cfg ext ep niter i b tr = (emit (Forward True b) tr, Some e))
   \<and> (\<exists>new. trace (fst (train_iteration cfg ext ep niter i b tr)) = trace tr @ new
          \<and> (\<forall>ep' i' g l c. Log_scalars ep' i' g l c \<in> set new \<longrightarrow>
                mse_loss (forward ext (weights (net tr)) (training (net tr)) (data_BX b) (data_BT b))
                  (targets b) = Inr l))"
proof -
  let ?out = "forward ext (weights (net tr)) (training (net tr)) (data_BX b) (data_BT b)"
  from train_iteration_log [of cfg ext ep niter i b tr] obtain new
    where new: "trace (fst (train_iteration cfg ext ep niter i b tr)) = trace tr @ new"
      "\<forall>ep' i' g l c. Log_scalars ep' i' g l c \<in> set new \<longrightarrow>
          mse_loss ?out (targets b) = Inr l
          \<and> eq_mean_broadcast (binarize ?out) (targets b) = Inr c"
    by (elim exE conjE)
  have A: "\<forall>ep' i' g l c. Log_scalars ep' i' g l c \<in> set new \<longrightarrow> mse_loss ?out (targets b) = Inr l"
    using new(2) by blast
  have B: "\<forall>e. mse_loss ?out (targets b) = Inl e \<longrightarrow>
          train_iteration cfg ext ep niter i b tr = (emit (Forward True b) tr, Some e)"
    by (simp add: train_iteration_def Let_def)
  have C: "\<exists>new. trace (fst (train_iteration cfg ext ep niter i b tr)) = trace tr @ new
          \<and> (\<forall>ep' i' g l c. Log_scalars ep' i' g l c \<in> set new \<longrightarrow>
                mse_loss ?out (targets b) = Inr l)"
    by (rule exI [of _ new]) (rule conjI [OF new(1) A])
  show ?thesis
    by (intro conjI) (rule train_iteration_weights, rule B, rule C)
qed

text \<open>
  One sample whose input holds two elements and whose target holds one: the output
  \<open>(0.8, 0.4)\<close> of shape \<open>1 \<times> 2\<close> is compared with the target \<open>1\<close> of shape \<open>1 \<times> 1\<close>,
  broadcast to \<open>(1, 1)\<close>. The loss is \<open>0.2\<close> and the optimizer steps; on the binarized
  output the loss would be \<open>0.5\<close>.
\<close>

theorem train_iteration_loss_witness:
  "weights (net (fst (train_iteration base_cfg (toy_ext [] []) 0 30 2
       [\<lparr>BX = \<lparr>shape = [2], elems = [4/5, 2/5]\<rparr>, BT = \<lparr>shape = [1], elems = [0]\<rparr>,
         tgt = \<lparr>shape = [1], elems = [1]\<rparr>\<rparr>]
       (new_trainer (toy_ext [] []))))) = 2
   \<and> trace (fst (train_iteration base_cfg (toy_ext [] []) 0 30 2
       [\<lparr>BX = \<lparr>shape = [2], elems = [4/5, 2/5]\<rparr>, BT = \<lparr>shape = [1], elems = [0]\<rparr>,
         tgt = \<lparr>shape = [1], elems = [1]\<rparr>\<rparr>]
       (new_trainer (toy_ext [] []))))
      = [Forward True [\<lparr>BX = \<lparr>shape = [2], elems = [4/5, 2/5]\<rparr>,
                        BT = \<lparr>shape = [1], elems = [0]\<rparr>, tgt = \<lparr>shape = [1], elems = [1]\<rparr>\<rparr>],
         Optimizer_step 0 2, Log_scalars 0 2 2 (1/5) (1/2)]
   \<and> mse_loss \<lparr>shape = [1, 2], elems = [4/5, 2/5]\<rparr> \<lparr>shape = [1, 1], elems = [1]\<rparr> = Inr (1/5)
   \<and> mse_loss (binarize \<lparr>shape = [1, 2], elems = [4/5, 2/5]\<rparr>) \<lparr>shape = [1, 1], elems = [1]\<rparr>
       = Inr (1/2)"
  using train_iteration_loss [of base_cfg "toy_ext [] []" 0 30 2
      "[\<lparr>BX = \<lparr>shape = [2], elems = [4/5, 2/5]\<rparr>, BT = \<lparr>shape = [1], elems = [0]\<rparr>,
         tgt = \<lparr>shape = [1], elems = [1]\<rparr>\<rparr>]"
      "new_trainer (toy_ext [] [])"]
  by (simp add: train_iteration_def side_effects_def and_then_def plot_step_def show_step_def
      save_step_def eval_step_def due_def py_mod_def base_cfg_def toy_ext_def new_trainer_def
      tensor_defs emit_def power2_eq_square numeral_2_eq_2)

text \<open>
  C3. The binarization maps every element strictly below \<open>0.5\<close> to \<open>0\<close> and every element
  greater than or equal to \<open>0.5\<close> to \<open>1\<close>, keeping the shape; an element equal to \<open>0.5\<close>
  becomes \<open>1\<close>. In the training loop, every accuracy an iteration logs is the agreement
  of the output so thresholded with the target. In the held-out loop, a batch adds to
  the accumulated accuracy the agreement of the output so thresholded with the target.
\<close>

theorem binarize_threshold:
  "binarize pred = pred\<lparr>elems := map (\<lambda>x. if x < 1/2 then 0 else 1) (elems pred)\<rparr>
   \<and> binarize \<lparr>shape = [1], elems = [1/2]\<rparr> = \<lparr>shape = [1], elems = [1]\<rparr>
   \<and> (\<exists>new. trace (fst (train_iteration cfg ext ep niter i b tr)) = trace tr @ new
          \<and> (\<forall>ep' i' g l c. Log_scalars ep' i' g l c \<in> set new \<longrightarrow>
                eq_mean_broadcast
                  ((forward ext (weights (net tr)) (training (net tr)) (data_BX b) (data_BT b))
                     \<lparr>elems := map (\<lambda>x. if x < 1/2 then 0 else 1)
                        (elems (forward ext (weights (net tr)) (training (net tr))
                                  (data_BX b) (data_BT b)))\<rparr>)
                  (targets b) = Inr c))
   \<and> test_loop ext nt (b # bs) (test_loss, correct, lg) =
       (if \<not> collates b then ((test_loss, correct, lg), Some RuntimeError)
        else case mse_loss (forward ext (weights nt) (training nt) (data_BX b) (data_BT b))
                    (targets b) of
               Inl e \<Rightarrow> ((test_loss, correct, lg @ [Forward False b]), Some e)
             | Inr l \<Rightarrow>
                 (case eq_mean
                         ((forward ext (weights nt) (training nt) (data_BX b) (data_BT b))
                            \<lparr>elems := map (\<lambda>x. if x < 1/2 then 0 else 1)
                               (elems (forward ext (weights nt) (training nt)
                                         (data_BX b) (data_BT b)))\<rparr>)
                         (targets b) of
                    Inl e \<Rightarrow> ((test_loss + l, correct, lg @ [Forward False b]), Some e)
                  | Inr c \<Rightarrow>
                      test_loop ext nt bs (test_loss + l, correct + c, lg @ [Forward False b])))"
proof -
  let ?out = "forward ext (weights (net tr)) (training (net tr)) (data_BX b) (data_BT b)"
  from train_iteration_log [of cfg ext ep niter i b tr] obtain new
    where new: "trace (fst (train_iteration cfg ext ep niter i b tr)) = trace tr @ new"
      "\<forall>ep' i' g l c. Log_scalars ep' i' g l c \<in> set new \<longrightarrow>
          mse_loss ?out (targets b) = Inr l
          \<and> eq_mean_broadcast (binarize ?out) (targets b) = Inr c"
    by (elim exE conjE)
  have A: "\<forall>ep' i' g l c. Log_scalars ep' i' g l c \<in> set new \<longrightarrow>
      eq_mean_broadcast (?out\<lparr>elems := map (\<lambda>x. if x < 1/2 then 0 else 1) (elems ?out)\<rparr>)
        (targets b) = Inr c"
    using new(2) unfolding binarize_map by blast
  have C: "\<exists>new. trace (fst (train_iteration cfg ext ep niter i b tr)) = trace tr @ new
      \<and> (\<forall>ep' i' g l c. Log_scalars ep' i' g l c \<in> set new \<longrightarrow>
        eq_mean_broadcast (?out\<lparr>elems := map (\<lambda>x. if x < 1/2 then 0 else 1) (elems ?out)\<rparr>)
          (targets b) = Inr c)"
    by (rule exI [of _ new]) (rule conjI [OF new(1) A])
  have D: "binarize \<lparr>shape = [1], elems = [1/2]\<rparr> = \<lparr>shape = [1], elems = [1]\<rparr>"
    by (simp add: binarize_map)
  have E: "test_loop ext nt (b # bs) (test_loss, correct, lg) =
       (if \<not> collates b then ((test_loss, correct, lg), Some RuntimeError)
        else case mse_loss (forward ext (weights nt) (training nt) (data_BX b) (data_BT b))
                    (targets b) of
               Inl e \<Rightarrow> ((test_loss, correct, lg @ [Forward False b]), Some e)
             | Inr l \<Rightarrow>
                 (case eq_mean
                         ((forward ext (weights nt) (training nt) (data_BX b) (data_BT b))
                            \<lparr>elems := map (\<lambda>x. if x < 1/2 then 0 else 1)
                               (elems (forward ext (weights nt) (training nt)
                                         (data_BX b) (data_BT b)))\<rparr>)
                         (targets b) of
                    Inl e \<Rightarrow> ((test_loss + l, correct, lg @ [Forward False b]), Some e)
                  | Inr c \<Rightarrow>
                      test_loop ext nt bs (test_loss + l, correct + c, lg @ [Forward False b])))"
    unfolding test_loop.simps Let_def binarize_map ..
  show ?thesis
    by (intro conjI) (rule binarize_map, rule D, rule C, rule E)
qed

text \<open>
  A batch whose outputs are \<open>0.5\<close> and \<open>0.4\<close>, with targets \<open>1\<close>: thresholded to \<open>1\<close> and \<open>0\<close>,
  the accuracy is \<open>1/2\<close> in the training loop and in the held-out loop.
\<close>

theorem binarize_threshold_witness:
  "binarize \<lparr>shape = [2, 1], elems = [1/2, 2/5]\<rparr> = \<lparr>shape = [2, 1], elems = [1, 0]\<rparr>
   \<and> trace (fst (train_iteration base_cfg (toy_ext [] []) 0 30 2 [smp (1/2) 1, smp (2/5) 1]
       (new_trainer (toy_ext [] []))))
      = [Forward True [smp (1/2) 1, smp (2/5) 1], Optimizer_step 0 2,
         Log_scalars 0 2 2 (61/200) (1/2)]
   \<and> test_loop (toy_ext [] []) \<lparr>weights = 1, training = False\<rparr> [[smp (1/2) 1, smp (2/5) 1]]
       (0, 0, [])
      = ((61/200, 1/2, [Forward False [smp (1/2) 1, smp (2/5) 1]]), None)"
  using binarize_threshold [of "\<lparr>shape = [2, 1], elems = [1/2, 2/5]\<rparr>" base_cfg "toy_ext [] []"
      0 30 2 "[smp (1/2) 1, smp (2/5) 1]" "new_trainer (toy_ext [] [])"
      "\<lparr>weights = 1, training = False\<rparr>" "[]" 0 0 "[]"]
  by (simp add: train_iteration_def side_effects_def and_then_def plot_step_def show_step_def
      save_step_def eval_step_def due_def py_mod_def base_cfg_def toy_ext_def new_trainer_def
      smp_def tensor_defs emit_def power2_eq_square)

subsection \<open>The loops\<close>

lemma train_batches_append: "train_batches (xs @ ys) = train_batches xs @ train_batches ys"
proof (induction xs)
  case Nil
  show ?case by simp
next
  case (Cons a xs)
  then show ?case by (cases a) auto
qed

lemma side_event_quiet:
  "side_event ep niter i loss correct ev \<Longrightarrow>
     \<not> is_progress ev \<and> train_batches (ev # evs) = train_batches evs"
  by (cases ev) (auto simp: side_event_def)

lemma side_events_quiet:
  "list_all (side_event ep niter i loss correct) side \<Longrightarrow>
     filter is_progress side = [] \<and> train_batches side = []"
proof (induction side)
  case Nil
  show ?case by simp
next
  case (Cons a side)
  then show ?case
    using side_event_quiet [of ep niter i loss correct a side] by simp
qed

lemma train_iteration_trace:
  "\<exists>new. trace (fst (train_iteration cfg ext ep niter i b tr)) = trace tr @ new
     \<and> (snd (train_iteration cfg ext ep niter i b tr) = None \<longrightarrow>
          filter is_progress new = [Optimizer_step ep i] \<and> train_batches new = [b])"
proof -
  let ?out = "forward ext (weights (net tr)) (training (net tr)) (data_BX b) (data_BT b)"
  show ?thesis
  proof (cases "mse_loss ?out (targets b)")
    case (Inl e)
    then show ?thesis by (simp add: train_iteration_def Let_def)
  next
    case (Inr loss)
    note mse = this
    show ?thesis
    proof (cases "eq_mean_broadcast (binarize ?out) (targets b)")
      case (Inl e)
      with mse show ?thesis by (simp add: train_iteration_def Let_def)
    next
      case (Inr correct)
      define tr2 where "tr2 = emit (Optimizer_step ep i) ((emit (Forward True b) tr)
        \<lparr>net := (net (emit (Forward True b) tr))\<lparr>weights := optimizer_step ext (weights (net tr))
            (\<lambda>w. mse_loss (forward ext w (training (net tr)) (data_BX b) (data_BT b)) (targets b))\<rparr>\<rparr>)"
      have ti: "train_iteration cfg ext ep niter i b tr
                  = side_effects cfg ext ep niter i loss correct tr2"
        using mse Inr by (simp add: train_iteration_def Let_def tr2_def)
      have t2: "trace tr2 = trace tr @ [Forward True b, Optimizer_step ep i]"
        by (simp add: tr2_def emit_def)
      from side_effects_trace [of cfg ext ep niter i loss correct tr2] obtain side
        where side: "trace (fst (side_effects cfg ext ep niter i loss correct tr2)) = trace tr2 @ side"
          "list_all (side_event ep niter i loss correct) side" by blast
      from side_events_quiet [OF side(2)]
      have q: "filter is_progress side = []" "train_batches side = []" by simp_all
      have "trace (fst (train_iteration cfg ext ep niter i b tr))
              = trace tr @ ([Forward True b, Optimizer_step ep i] @ side)"
        using ti side(1) t2 by simp
      moreover have "filter is_progress ([Forward True b, Optimizer_step ep i] @ side)
              = [Optimizer_step ep i]"
        using q by simp
      moreover have "train_batches ([Forward True b, Optimizer_step ep i] @ side) = [b]"
        using q by simp
      ultimately show ?thesis by blast
    qed
  qed
qed

lemma iterations_trace:
  "\<exists>new. trace (fst (iterations cfg ext ep niter is loader tr)) = trace tr @ new
     \<and> (snd (iterations cfg ext ep niter is loader tr) = None \<longrightarrow>
          filter is_progress new = map (Optimizer_step ep) is
          \<and> train_batches new = take (length is) loader \<and> length is \<le> length loader)"
proof (induction cfg ext ep niter "is" loader tr rule: iterations.induct)
  case (1 cfg ext ep niter loader tr)
  show ?case by simp
next
  case (2 cfg ext ep niter i "is" tr)
  show ?case by simp
next
  case (3 cfg ext ep niter i "is" b rest tr)
  show ?case
  proof (cases "collates b")
    case False
    then show ?thesis by simp
  next
    case col: True
    obtain tr1 err where r: "train_iteration cfg ext ep niter i b tr = (tr1, err)"
      by (cases "train_iteration cfg ext ep niter i b tr") 
    from train_iteration_trace [of cfg ext ep niter i b tr] obtain n1
      where n1: "trace tr1 = trace tr @ n1"
        "err = None \<longrightarrow> filter is_progress n1 = [Optimizer_step ep i] \<and> train_batches n1 = [b]"
      unfolding r fst_conv snd_conv by blast
    show ?thesis
    proof (cases err)
      case (Some e)
      have "iterations cfg ext ep niter (i # is) (b # rest) tr = (tr1, Some e)"
        using col by (simp add: r Some and_then_def)
      with n1(1) show ?thesis by simp
    next
      case None
      have "\<exists>n2. trace (fst (iterations cfg ext ep niter is rest tr1)) = trace tr1 @ n2
          \<and> (snd (iterations cfg ext ep niter is rest tr1) = None \<longrightarrow>
             filter is_progress n2 = map (Optimizer_step ep) is
             \<and> train_batches n2 = take (length is) rest \<and> length is \<le> length rest)"
        using col by (intro "3.IH") simp
      then obtain n2
        where n2: "trace (fst (iterations cfg ext ep niter is rest tr1)) = trace tr1 @ n2"
          "snd (iterations cfg ext ep niter is rest tr1) = None \<longrightarrow>
             filter is_progress n2 = map (Optimizer_step ep) is
             \<and> train_batches n2 = take (length is) rest \<and> length is \<le> length rest"
        by (elim exE conjE)
      have it: "iterations cfg ext ep niter (i # is) (b # rest) tr
                  = iterations cfg ext ep niter is rest tr1"
        using col by (simp add: r None and_then_def)
      have A: "trace (fst (iterations cfg ext ep niter (i # is) (b # rest) tr))
                 = trace tr @ (n1 @ n2)"
        unfolding it n2(1) n1(1) by simp
      have B: "snd (iterations cfg ext ep niter (i # is) (b # rest) tr) = None \<longrightarrow>
          filter is_progress (n1 @ n2) = map (Optimizer_step ep) (i # is)
          \<and> train_batches (n1 @ n2) = take (length (i # is)) (b # rest)
          \<and> length (i # is) \<le> length (b # rest)"
        unfolding it using n1(2) n2(2) None by (simp add: train_batches_append)
      show ?thesis
        by (rule exI [of _ "n1 @ n2"]) (rule conjI [OF A B])
    qed
  qed
qed

lemma epoch_body_trace:
  "\<exists>new. trace (snd (fst (epoch_body cfg ext ep st))) = trace (snd st) @ new
     \<and> (snd (epoch_body cfg ext ep st) = None \<longrightarrow>
          fst (fst (epoch_body cfg ext ep st)) = 0
          \<and> filter is_progress new =
                map (Optimizer_step ep)
                  [fst st..loader_len (batch_size cfg) True (length (train_dataset ext)) - 1]
                @ [Scheduler_step]
          \<and> (\<exists>loader. data_loader (train_dataset ext) (batch_size cfg) True True (shuffle ext ep)
                          = Inr loader
                 \<and> train_batches new =
                     take (length [fst st..loader_len (batch_size cfg) True
                                             (length (train_dataset ext)) - 1]) loader
                 \<and> length [fst st..loader_len (batch_size cfg) True
                                      (length (train_dataset ext)) - 1] \<le> length loader))"
proof (cases "data_loader (train_dataset ext) (batch_size cfg) True True (shuffle ext ep)")
  case (Inl e)
  then show ?thesis by (simp add: epoch_body_def Let_def net_train_def)
next
  case (Inr loader)
  define niter where "niter = loader_len (batch_size cfg) True (length (train_dataset ext))"
  define tr1 where "tr1 = net_train (snd st)"
  have t1: "trace tr1 = trace (snd st) @ [Net_train]" by (simp add: tr1_def net_train_def)
  obtain tr2 err where it: "iterations cfg ext ep niter [fst st..niter - 1] loader tr1 = (tr2, err)"
    by (cases "iterations cfg ext ep niter [fst st..niter - 1] loader tr1")
  from iterations_trace [of cfg ext ep niter "[fst st..niter - 1]" loader tr1] obtain n
    where n: "trace tr2 = trace tr1 @ n"
      "err = None \<longrightarrow> filter is_progress n = map (Optimizer_step ep) [fst st..niter - 1]
         \<and> train_batches n = take (length [fst st..niter - 1]) loader
         \<and> length [fst st..niter - 1] \<le> length loader"
    unfolding it fst_conv snd_conv by (elim exE conjE)
  show ?thesis
  proof (cases err)
    case (Some e)
    have "epoch_body cfg ext ep st = ((fst st, tr2), Some e)"
      using Inr it Some by (simp add: epoch_body_def Let_def niter_def tr1_def)
    then show ?thesis using n(1) t1 by simp
  next
    case None
    have eb: "epoch_body cfg ext ep st = ((0, emit Scheduler_step tr2), None)"
      using Inr it None by (simp add: epoch_body_def Let_def niter_def tr1_def)
    have A: "trace (snd (fst (epoch_body cfg ext ep st)))
               = trace (snd st) @ ([Net_train] @ n @ [Scheduler_step])"
      unfolding eb using n(1) t1 by simp
    have B: "filter is_progress ([Net_train] @ n @ [Scheduler_step])
               = map (Optimizer_step ep) [fst st..niter - 1] @ [Scheduler_step]"
      using n(2) None by simp
    have C: "train_batches ([Net_train] @ n @ [Scheduler_step])
               = take (length [fst st..niter - 1]) loader"
      using n(2) None by (simp add: train_batches_append)
    have D: "length [fst st..niter - 1] \<le> length loader" using n(2) None by simp
    show ?thesis
      apply (rule exI [of _ "[Net_train] @ n @ [Scheduler_step]"])
      apply (rule conjI [OF A])
      apply (rule impI)
      apply (fold niter_def)
      apply (intro conjI)
        apply (simp add: eb)
       apply (rule B)
      apply (rule exI [of _ loader])
      apply (simp only: Inr C D)
      done
  qed
qed

lemma later_epochs:
  "(case eps of [] \<Rightarrow> []
    | e # es \<Rightarrow> map (Optimizer_step e) [0..n] @ [Scheduler_step]
        @ concat (map (\<lambda>e. map (Optimizer_step e) [0..n] @ [Scheduler_step]) es))
   = concat (map (\<lambda>e. map (Optimizer_step e) [0..n] @ [Scheduler_step]) eps)"
  by (cases eps) simp_all

lemma epochs_trace:
  "\<exists>new. trace (snd (fst (epochs cfg ext eps st))) = trace (snd st) @ new
     \<and> (snd (epochs cfg ext eps st) = None \<longrightarrow>
          filter is_progress new =
            (case eps of [] \<Rightarrow> []
             | e # es \<Rightarrow>
                 map (Optimizer_step e)
                   [fst st..loader_len (batch_size cfg) True (length (train_dataset ext)) - 1]
                 @ [Scheduler_step]
                 @ concat (map (\<lambda>e. map (Optimizer_step e)
                       [0..loader_len (batch_size cfg) True (length (train_dataset ext)) - 1]
                     @ [Scheduler_step]) es))
          \<and> (eps \<noteq> [] \<longrightarrow> fst (fst (epochs cfg ext eps st)) = 0))"
proof (induction cfg ext eps st rule: epochs.induct)
  case (1 cfg ext st)
  show ?case by simp
next
  case (2 cfg ext ep eps st)
  define n where "n = loader_len (batch_size cfg) True (length (train_dataset ext)) - 1"
  obtain si1 tr1 err where eb: "epoch_body cfg ext ep st = ((si1, tr1), err)"
    by (cases "epoch_body cfg ext ep st") auto
  have "\<exists>n1. trace tr1 = trace (snd st) @ n1
      \<and> (err = None \<longrightarrow> si1 = 0
         \<and> filter is_progress n1 = map (Optimizer_step ep) [fst st..n] @ [Scheduler_step])"
    using epoch_body_trace [of cfg ext ep st] unfolding eb n_def by auto
  then obtain n1
    where n1: "trace tr1 = trace (snd st) @ n1"
      "err = None \<longrightarrow> si1 = 0
         \<and> filter is_progress n1 = map (Optimizer_step ep) [fst st..n] @ [Scheduler_step]"
    by (elim exE conjE)
  show ?case
  proof (cases err)
    case (Some e)
    have "epochs cfg ext (ep # eps) st = ((si1, tr1), Some e)"
      using eb Some by (simp add: and_then_def)
    then show ?thesis using n1(1) by simp
  next
    case None
    with n1(2) have si1: "si1 = 0"
      and p1: "filter is_progress n1 = map (Optimizer_step ep) [fst st..n] @ [Scheduler_step]"
      by simp_all
    have ep: "epochs cfg ext (ep # eps) st = epochs cfg ext eps (0, tr1)"
      using eb None si1 by (simp add: and_then_def)
    have "\<exists>new. trace (snd (fst (epochs cfg ext eps (0, tr1)))) = trace (snd (0::int, tr1)) @ new
       \<and> (snd (epochs cfg ext eps (0, tr1)) = None \<longrightarrow>
          filter is_progress new =
            (case eps of [] \<Rightarrow> []
             | e # es \<Rightarrow>
                 map (Optimizer_step e)
                   [fst (0::int, tr1)..loader_len (batch_size cfg) True (length (train_dataset ext)) - 1]
                 @ [Scheduler_step]
                 @ concat (map (\<lambda>e. map (Optimizer_step e)
                       [0..loader_len (batch_size cfg) True (length (train_dataset ext)) - 1]
                     @ [Scheduler_step]) es))
          \<and> (eps \<noteq> [] \<longrightarrow> fst (fst (epochs cfg ext eps (0, tr1))) = 0))"
      by (rule "2.IH")
    then obtain n2
      where n2: "trace (snd (fst (epochs cfg ext eps (0, tr1)))) = trace tr1 @ n2"
        "snd (epochs cfg ext eps (0, tr1)) = None \<longrightarrow>
          filter is_progress n2 =
            concat (map (\<lambda>e. map (Optimizer_step e) [0..n] @ [Scheduler_step]) eps)
          \<and> (eps \<noteq> [] \<longrightarrow> fst (fst (epochs cfg ext eps (0, tr1))) = 0)"
      unfolding fst_conv snd_conv n_def [symmetric] later_epochs by (elim exE conjE)
    have A: "trace (snd (fst (epochs cfg ext (ep # eps) st))) = trace (snd st) @ (n1 @ n2)"
      unfolding ep using n1(1) n2(1) by simp
    have B: "snd (epochs cfg ext (ep # eps) st) = None \<longrightarrow>
        filter is_progress (n1 @ n2) =
          map (Optimizer_step ep) [fst st..n] @ [Scheduler_step]
            @ concat (map (\<lambda>e. map (Optimizer_step e) [0..n] @ [Scheduler_step]) eps)"
      unfolding ep using p1 n2(2) by simp
    have C: "snd (epochs cfg ext (ep # eps) st) = None \<longrightarrow>
        fst (fst (epochs cfg ext (ep # eps) st)) = 0"
      unfolding ep using n2(2) by (cases eps) simp_all
    show ?thesis
      apply (rule exI [of _ "n1 @ n2"])
      apply (rule conjI [OF A])
      apply (fold n_def)
      using B C apply simp
      done
  qed
qed

subsection \<open>Batches of an epoch\<close>

lemma batch_sampler_full:
  "0 < n \<Longrightarrow> length acc < n \<Longrightarrow> b \<in> set (batch_sampler n True acc xs) \<Longrightarrow> length b = n"
proof (induction xs arbitrary: acc)
  case Nil
  then show ?case by simp
next
  case (Cons x xs)
  show ?case
  proof (cases "length (acc @ [x]) = n")
    case True
    with Cons.prems Cons.IH [of "[]"] show ?thesis by auto
  next
    case False
    with Cons.prems have "length (acc @ [x]) < n" by simp
    with False Cons.prems Cons.IH [of "acc @ [x]"] show ?thesis by simp
  qed
qed

lemma batch_sampler_concat:
  "0 < n \<Longrightarrow> length acc < n \<Longrightarrow>
     \<exists>rest. acc @ xs = concat (batch_sampler n True acc xs) @ rest \<and> length rest < n"
proof (induction xs arbitrary: acc)
  case Nil
  then show ?case by simp
next
  case (Cons x xs)
  show ?case
  proof (cases "length (acc @ [x]) = n")
    case True
    from Cons.IH [of "[]"] Cons.prems obtain rest
      where "xs = concat (batch_sampler n True [] xs) @ rest" "length rest < n" by auto
    with True show ?thesis by auto
  next
    case False
    with Cons.prems have "length (acc @ [x]) < n" by simp
    from Cons.IH [OF Cons.prems(1) this] obtain rest
      where "(acc @ [x]) @ xs = concat (batch_sampler n True (acc @ [x]) xs) @ rest"
        "length rest < n" by auto
    with False show ?thesis by auto
  qed
qed

lemma length_concat_full:
  "(\<And>b. b \<in> set bs \<Longrightarrow> length b = n) \<Longrightarrow> length (concat bs) = n * length bs"
  by (induction bs) auto

lemma batch_sampler_length:
  assumes "0 < n"
  shows "length (batch_sampler n True [] xs) = length xs div n"
proof -
  from batch_sampler_concat [OF assms, of "[]" xs] assms obtain rest
    where r: "xs = concat (batch_sampler n True [] xs) @ rest" "length rest < n" by auto
  have "length (concat (batch_sampler n True [] xs)) = n * length (batch_sampler n True [] xs)"
    using batch_sampler_full [OF assms, of "[]" _ xs] assms by (intro length_concat_full) auto
  with r have "length xs = n * length (batch_sampler n True [] xs) + length rest"
    by (metis length_append)
  with r(2) show ?thesis by (metis add.commute div_mult_self2 div_less add_cancel_left_left assms less_not_refl)
qed

lemma batch_sampler_covers:
  assumes "0 < n"
  shows "mset (concat (batch_sampler n True [] xs)) \<subseteq># mset xs
    \<and> (mset (concat (batch_sampler n True [] xs)) = mset xs \<longleftrightarrow> n dvd length xs)"
proof -
  from batch_sampler_concat [OF assms, of "[]" xs] assms obtain rest
    where r: "xs = concat (batch_sampler n True [] xs) @ rest" "length rest < n" by auto
  have len: "length (concat (batch_sampler n True [] xs)) = n * length (batch_sampler n True [] xs)"
    using batch_sampler_full [OF assms, of "[]" _ xs] assms by (intro length_concat_full) auto
  have m: "mset xs = mset (concat (batch_sampler n True [] xs)) + mset rest"
    by (subst r(1)) simp
  have l: "length xs = n * length (batch_sampler n True [] xs) + length rest"
    using len r(1) by (metis length_append)
  have "n dvd length xs \<longleftrightarrow> length rest = 0"
  proof
    assume "n dvd length xs"
    with l have "n dvd length rest" by (metis dvd_add_right_iff dvd_triv_left)
    with r(2) show "length rest = 0" by (metis dvd_imp_le not_less neq0_conv)
  next
    assume "length rest = 0"
    with l show "n dvd length xs" by simp
  qed
  moreover have "mset (concat (batch_sampler n True [] xs)) = mset xs \<longleftrightarrow> rest = []"
    using m by auto
  ultimately show ?thesis using m by auto
qed

lemma toy_epoch_run:
  "epoch_body base_cfg (toy_ext [smp 1 1, smp 2 1, smp 3 1, smp 4 1, smp 5 1] []) 0
       (0, new_trainer (toy_ext [smp 1 1, smp 2 1, smp 3 1, smp 4 1, smp 5 1] []))
     = ((0, \<lparr>net = \<lparr>weights = 3, training = True\<rparr>, iteration = 0, epoch = 0,
            trace = [Net_train, Forward True [smp 1 1, smp 2 1], Optimizer_step 0 0,
                     Forward True [smp 3 1, smp 4 1], Optimizer_step 0 1, Scheduler_step]\<rparr>),
        None)"
  by (simp add: toy_defs)

text \<open>
  C5, as the loader is built. In an epoch that completes, when the sampler's order is a
  permutation of the training set: the loader holds \<open>niter\<close> batches (the size of the data
  set divided by the batch size, rounded down) of exactly \<open>batch_size\<close> samples each, which
  are a part of the training set and all of it exactly when the batch size divides its
  size (the loader is built with \<^verbatim>\<open>drop_last=True\<close>); the loop runs the iterations
  \<open>start_iter\<close> to \<open>niter - 1\<close>, each on the next batch of the loader, then the scheduler's
  step; an epoch that starts at iteration \<open>0\<close> visits every batch of the loader once, and
  a resumed epoch continues at the resumed iteration index on the first
  \<open>niter - start_iter\<close> batches of its new loader.
\<close>

theorem epoch_visits:
  assumes fin: "epoch_body cfg ext ep (start_iter, tr) = ((si', tr'), None)"
    and perm: "mset (shuffle ext ep (train_dataset ext)) = mset (train_dataset ext)"
  shows "\<exists>new loader.
       trace tr' = trace tr @ new
     \<and> data_loader (train_dataset ext) (batch_size cfg) True True (shuffle ext ep) = Inr loader
     \<and> int (length loader) = loader_len (batch_size cfg) True (length (train_dataset ext))
     \<and> (\<forall>b \<in> set loader. int (length b) = batch_size cfg)
     \<and> mset (concat loader) \<subseteq># mset (train_dataset ext)
     \<and> (mset (concat loader) = mset (train_dataset ext)
          \<longleftrightarrow> batch_size cfg dvd int (length (train_dataset ext)))
     \<and> filter is_progress new =
         map (Optimizer_step ep)
           [start_iter..loader_len (batch_size cfg) True (length (train_dataset ext)) - 1]
         @ [Scheduler_step]
     \<and> train_batches new =
         take (length [start_iter..loader_len (batch_size cfg) True
                                     (length (train_dataset ext)) - 1]) loader
     \<and> (start_iter = 0 \<longrightarrow> train_batches new = loader)"
proof -
  define niter where "niter = loader_len (batch_size cfg) True (length (train_dataset ext))"
  define order where "order = shuffle ext ep (train_dataset ext)"
  have "\<exists>new loader. trace tr' = trace tr @ new
      \<and> filter is_progress new = map (Optimizer_step ep) [start_iter..niter - 1] @ [Scheduler_step]
      \<and> data_loader (train_dataset ext) (batch_size cfg) True True (shuffle ext ep) = Inr loader
      \<and> train_batches new = take (length [start_iter..niter - 1]) loader"
    using epoch_body_trace [of cfg ext ep "(start_iter, tr)"]
    unfolding fin niter_def by auto
  then obtain new loader
    where new: "trace tr' = trace tr @ new"
      "filter is_progress new = map (Optimizer_step ep) [start_iter..niter - 1] @ [Scheduler_step]"
      "train_batches new = take (length [start_iter..niter - 1]) loader"
      and dl: "data_loader (train_dataset ext) (batch_size cfg) True True (shuffle ext ep)
                 = Inr loader"
    by (elim exE conjE)
  from dl have pos: "0 < batch_size cfg"
    and loader: "loader = batch_sampler (nat (batch_size cfg)) True [] order"
    by (auto simp: data_loader_def order_def split: if_splits)
  from pos have npos: "0 < nat (batch_size cfg)" by simp
  have lo: "length order = length (train_dataset ext)"
    using perm unfolding order_def by (rule mset_eq_length)
  have len: "int (length loader) = niter"
    unfolding loader batch_sampler_length [OF npos] lo niter_def loader_len_def
    using pos by (simp add: zdiv_int)
  have full: "\<forall>b \<in> set loader. int (length b) = batch_size cfg"
    using batch_sampler_full [OF npos, of "[]" _ order] npos pos unfolding loader by auto
  from batch_sampler_covers [OF npos, of order]
  have cov: "mset (concat loader) \<subseteq># mset (train_dataset ext)"
    "mset (concat loader) = mset (train_dataset ext)
       \<longleftrightarrow> nat (batch_size cfg) dvd length (train_dataset ext)"
    unfolding loader [symmetric] lo using perm unfolding order_def by simp_all
  have dv: "nat (batch_size cfg) dvd length (train_dataset ext)
      \<longleftrightarrow> batch_size cfg dvd int (length (train_dataset ext))"
    using pos by (metis int_dvd_int_iff int_nat_eq less_imp_le)
  have all: "start_iter = 0 \<longrightarrow> train_batches new = loader"
    using new(3) len by auto
  show ?thesis
    apply (rule exI [of _ new])
    apply (rule exI [of _ loader])
    apply (fold niter_def)
    using new dl len full cov(1) cov(2) dv all apply simp
    done
qed

text \<open>Five samples, batches of two: the epoch visits two batches.\<close>

theorem epoch_visits_witness:
  "train_batches (trace (snd (fst
      (epoch_body base_cfg (toy_ext [smp 1 1, smp 2 1, smp 3 1, smp 4 1, smp 5 1] []) 0
         (0, new_trainer (toy_ext [smp 1 1, smp 2 1, smp 3 1, smp 4 1, smp 5 1] []))))))
     = [[smp 1 1, smp 2 1], [smp 3 1, smp 4 1]]
   \<and> data_loader (train_dataset (toy_ext [smp 1 1, smp 2 1, smp 3 1, smp 4 1, smp 5 1] []))
        (batch_size base_cfg) True True
        (shuffle (toy_ext [smp 1 1, smp 2 1, smp 3 1, smp 4 1, smp 5 1] []) 0)
     = Inr [[smp 1 1, smp 2 1], [smp 3 1, smp 4 1]]"
proof -
  have perm: "mset (shuffle (toy_ext [smp 1 1, smp 2 1, smp 3 1, smp 4 1, smp 5 1] []) 0
           (train_dataset (toy_ext [smp 1 1, smp 2 1, smp 3 1, smp 4 1, smp 5 1] [])))
     = mset (train_dataset (toy_ext [smp 1 1, smp 2 1, smp 3 1, smp 4 1, smp 5 1] []))"
    by (simp add: toy_ext_def)
  from epoch_visits [OF toy_epoch_run perm]
  show ?thesis
    by (simp add: toy_epoch_run) (simp add: toy_ext_def base_cfg_def data_loader_def)
qed

text \<open>
  As stated, with every training sample visited once in every epoch, the claim fails: of
  five samples in batches of two, the epoch completes without visiting the fifth.
\<close>

theorem epoch_drops_last_samples:
  "snd (epoch_body base_cfg (toy_ext [smp 1 1, smp 2 1, smp 3 1, smp 4 1, smp 5 1] []) 0
         (0, new_trainer (toy_ext [smp 1 1, smp 2 1, smp 3 1, smp 4 1, smp 5 1] []))) = None
   \<and> train_batches (trace (snd (fst
      (epoch_body base_cfg (toy_ext [smp 1 1, smp 2 1, smp 3 1, smp 4 1, smp 5 1] []) 0
         (0, new_trainer (toy_ext [smp 1 1, smp 2 1, smp 3 1, smp 4 1, smp 5 1] []))))))
     = [[smp 1 1, smp 2 1], [smp 3 1, smp 4 1]]
   \<and> smp 5 1 \<in> set (train_dataset (toy_ext [smp 1 1, smp 2 1, smp 3 1, smp 4 1, smp 5 1] []))
   \<and> smp 5 1 \<notin> set (concat [[smp 1 1, smp 2 1], [smp 3 1, smp 4 1]])"
  by (simp add: toy_epoch_run) (simp add: toy_ext_def smp_def)

subsection \<open>End of an epoch\<close>

lemma toy_epochs_run:
  "epochs base_cfg (toy_ext [smp 1 1, smp 2 1, smp 3 1, smp 4 1, smp 5 1] []) [0, 1]
       (1, new_trainer (toy_ext [smp 1 1, smp 2 1, smp 3 1, smp 4 1, smp 5 1] []))
     = ((0, \<lparr>net = \<lparr>weights = 4, training = True\<rparr>, iteration = 0, epoch = 0,
            trace = [Net_train, Forward True [smp 1 1, smp 2 1], Optimizer_step 0 1,
                     Scheduler_step,
                     Net_train, Forward True [smp 1 1, smp 2 1], Optimizer_step 1 0,
                     Forward True [smp 3 1, smp 4 1], Optimizer_step 1 1, Scheduler_step]\<rparr>),
        None)"
  by (simp add: toy_defs)

text \<open>
  C6. In a run of the loop over the epochs that completes, the optimizer's and the
  scheduler's steps are, in order: the iterations \<open>start_iter\<close> to \<open>niter - 1\<close> of the first
  epoch and one step of the scheduler, then for every later epoch the iterations \<open>0\<close> to
  \<open>niter - 1\<close> and one step of the scheduler. The start cursor is \<open>0\<close> afterwards. So only
  the first epoch can start in the middle.
\<close>

theorem epochs_schedule:
  assumes "epochs cfg ext (ep # eps) (start_iter, tr) = ((si', tr'), None)"
  shows "si' = 0
     \<and> (\<exists>new. trace tr' = trace tr @ new
           \<and> filter is_progress new =
               map (Optimizer_step ep)
                 [start_iter..loader_len (batch_size cfg) True (length (train_dataset ext)) - 1]
               @ [Scheduler_step]
               @ concat (map (\<lambda>e. map (Optimizer_step e)
                     [0..loader_len (batch_size cfg) True (length (train_dataset ext)) - 1]
                   @ [Scheduler_step]) eps))"
proof -
  from epochs_trace [of cfg ext "ep # eps" "(start_iter, tr)"] obtain new
    where "trace tr' = trace tr @ new"
      "filter is_progress new =
         map (Optimizer_step ep)
           [start_iter..loader_len (batch_size cfg) True (length (train_dataset ext)) - 1]
         @ [Scheduler_step]
         @ concat (map (\<lambda>e. map (Optimizer_step e)
               [0..loader_len (batch_size cfg) True (length (train_dataset ext)) - 1]
             @ [Scheduler_step]) eps)"
      "si' = 0"
    unfolding assms by auto
  then show ?thesis by (intro conjI exI [of _ new])
qed

text \<open>Two epochs resumed at iteration \<open>1\<close>, with two batches in an epoch.\<close>

theorem epochs_schedule_witness:
  "fst (fst (epochs base_cfg (toy_ext [smp 1 1, smp 2 1, smp 3 1, smp 4 1, smp 5 1] []) [0, 1]
       (1, new_trainer (toy_ext [smp 1 1, smp 2 1, smp 3 1, smp 4 1, smp 5 1] [])))) = 0
   \<and> filter is_progress (trace (snd (fst
        (epochs base_cfg (toy_ext [smp 1 1, smp 2 1, smp 3 1, smp 4 1, smp 5 1] []) [0, 1]
          (1, new_trainer (toy_ext [smp 1 1, smp 2 1, smp 3 1, smp 4 1, smp 5 1] []))))))
      = [Optimizer_step 0 1, Scheduler_step, Optimizer_step 1 0, Optimizer_step 1 1,
         Scheduler_step]"
  using epochs_schedule [OF toy_epochs_run]
  unfolding toy_epochs_run by simp

subsection \<open>Checkpoint at startup\<close>



end
